theory Spec2Isabelle
  imports Main "HOL-Library.Word"
begin

section \<open>The dripline AMQP service (dripline/service.go)\<close>

text \<open>
  A shallow embedding of \<^verbatim>\<open>service.go\<close>. The service talks to a broker
  through the amqp client library and to its callers through Go channels, so the
  model makes three things explicit:
  \<^item> every call of the client library, every log line and every send on
    \<^verbatim>\<open>DoneSignal\<close> is appended to a trace, in program order;
  \<^item> what the broker answers to a call is a parameter of the function that makes the
    call (an \<open>error + 'a\<close> for Go's \<^verbatim>\<open>(x, err)\<close>, an \<open>error option\<close> for a lone
    \<^verbatim>\<open>err\<close>);
  \<^item> a goroutine either returns, parks for good on a channel operation, or panics:
    the three constructors of \<open>outcome\<close>.
\<close>

subsection \<open>Go channels\<close>

text \<open>
  A buffered channel: its capacity, the values queued in it (oldest first) and whether
  it has been closed. A send on a full channel blocks, a send on a closed one panics; a
  receive takes the oldest value, and on an empty closed channel yields
  \<^verbatim>\<open>chanOpen == false\<close>.
\<close>

record 'a chan =
  cap :: nat
  buf :: "'a list"
  closed :: bool

definition make_chan :: "nat \<Rightarrow> 'a chan" where
  "make_chan n = \<lparr>cap = n, buf = [], closed = False\<rparr>"

datatype 'a sent = Sent "'a chan" | Full | SendOnClosed

definition chan_send :: "'a chan \<Rightarrow> 'a \<Rightarrow> 'a sent" where
  "chan_send c v =
     (if closed c then SendOnClosed
      else if length (buf c) < cap c then Sent (c\<lparr>buf := buf c @ [v]\<rparr>)
      else Full)"

datatype 'a received = Received 'a "'a chan" | ChanClosed | NotReady

definition chan_recv :: "'a chan \<Rightarrow> 'a received" where
  "chan_recv c =
     (case buf c of
        v # vs \<Rightarrow> Received v (c\<lparr>buf := vs\<rparr>)
      | [] \<Rightarrow> if closed c then ChanClosed else NotReady)"

subsection \<open>Messages\<close>

text \<open>
  Modelled from the spec: the message types of \<^verbatim>\<open>message.go\<close>, which is not
  under src/. Section 3 of the spec gives the envelope (\<open>Message\<close>) and says that
  Request, Reply, Alert and Info are four closed variants sharing it; the
  kind-specific payload is an operation for a Request, a result code and text for a
  Reply, and content for an Alert or an Info.
\<close>

type_synonym error = string

datatype MsgCodeT = MTReply | MTRequest | MTAlert | MTInfo

record SenderInfo =
  Package :: string
  Exe :: string
  Hostname :: string
  Username :: string

record Message =
  MsgType :: MsgCodeT
  Target :: string
  Encoding :: string
  ReplyTo :: string
  CorrId :: string
  Sender_Info :: SenderInfo
  exchange :: string

record Request = Message +
  MsgOp :: string
  RequestPayload :: string

datatype RetCode = RCSuccess | RCErrDripTimeout | RCOther nat

record Reply = Message +
  Ret_Code :: RetCode
  ReturnMsg :: string
  ReplyPayload :: string

record Alert = Message +
  AlertPayload :: string

record Info = Message +
  InfoPayload :: string

datatype decoded = IsRequest Request | IsReply Reply | IsAlert Alert | IsInfo Info

text \<open>The amqp library's delivery and publishing, with the fields the service uses.\<close>

record Delivery =
  DeliveryTag :: nat
  DeliveryBody :: string

record Publishing =
  ContentEncoding :: string
  Body :: string
  Reply_To :: string
  CorrelationId :: string

text \<open>
  \<^verbatim>\<open>Encode\<close> and the decoding inside \<^verbatim>\<open>DecodeAndHandle\<close> are opaque in the
  spec, so the functions that call them take them as a parameter.
\<close>

record codec =
  EncodeRequest :: "Request \<Rightarrow> error + string"
  EncodeReply :: "Reply \<Rightarrow> error + string"
  EncodeAlert :: "Alert \<Rightarrow> error + string"
  EncodeInfo :: "Info \<Rightarrow> error + string"
  Decode :: "Delivery \<Rightarrow> error + decoded"

subsection \<open>The service\<close>

type_synonym conn_id = nat
type_synonym chan_id = nat
type_synonym stream_id = nat

text \<open>
  \<open>subscriptionCount\<close> is a Go \<^verbatim>\<open>int\<close>, 64 bits on the usual platforms. The
  pointers \<open>channel\<close> and \<open>connection\<close> and the receive-only channel
  \<open>messageQueue\<close> are \<^verbatim>\<open>nil\<close> until assigned: \<open>None\<close>.
\<close>

record AmqpReceiver =
  QueueName :: string
  RequestChan :: "Request chan"
  AlertChan :: "Alert chan"
  InfoChan :: "Info chan"
  subscriptionCount :: "64 word"
  messageQueue :: "stream_id option"

record AmqpSender =
  RequestExchangeName :: string
  AlertExchangeName :: string
  InfoExchangeName :: string
  requestChan :: "Request chan"
  replyChan :: "Reply chan"
  alertChan :: "Alert chan"
  infoChan :: "Info chan"

record AmqpService =
  BrokerAddress :: string
  Connected :: bool
  DoneSignal :: "bool chan"
  Receiver :: AmqpReceiver
  Sender :: AmqpSender
  channel :: "chan_id option"
  connection :: "conn_id option"
  stopQueue :: "bool chan"
  senderInfo :: SenderInfo

subsection \<open>Effects and outcomes\<close>

datatype level = DEBUG | INFO | NOTICE | WARNING | ERROR | CRITICAL

text \<open>
  The calls keep the arguments of the source, in the source's order:
  \<^verbatim>\<open>QueueDeclare(name, durable, autoDelete, exclusive, noWait)\<close>,
  \<^verbatim>\<open>QueueBind(name, key, exchange, noWait)\<close>,
  \<^verbatim>\<open>Consume(queue, consumer, autoAck, exclusive, noLocal, noWait)\<close>,
  \<^verbatim>\<open>ExchangeDeclare(name, kind, durable, autoDelete, internal, noWait)\<close>,
  \<^verbatim>\<open>QueueDelete(name, ifUnused, ifEmpty, noWait)\<close>, \<^verbatim>\<open>Ack(multiple)\<close>,
  \<^verbatim>\<open>Publish(exchange, key, mandatory, immediate, msg)\<close>; the first argument of a
  channel method is the channel it is called on. \<open>Signal v\<close> is
  \<^verbatim>\<open>service.DoneSignal <- v\<close>.
\<close>

datatype effect =
    Log level string
  | Dial string
  | Sleep nat
  | ConnNotifyClose conn_id
  | ConnChannel conn_id
  | QueueDeclare chan_id string bool bool bool bool
  | QueueBind chan_id string string string bool
  | Consume chan_id string string bool bool bool bool
  | ExchangeDeclare chan_id string string bool bool bool bool
  | NotifyCancel chan_id
  | NotifyClose chan_id
  | QueueDelete chan_id string bool bool bool
  | ChannelClose chan_id
  | ConnectionClose conn_id
  | Ack Delivery bool
  | Publish chan_id string string bool bool Publishing
  | Signal bool

text \<open>
  \<open>starter\<close> records the caller of \<^verbatim>\<open>StartService\<close>, which blocks in
  \<^verbatim>\<open>isDone := <-service.DoneSignal\<close>: while it waits, the first value sent on
  \<^verbatim>\<open>DoneSignal\<close> goes to it and not into the buffer.
\<close>

datatype starter = NotStarting | AwaitingDone | GotDone bool

text \<open>
  The two Go channels \<^verbatim>\<open>channelCancelChan\<close> and \<^verbatim>\<open>channelCloseChan\<close> are made once
  by \<^verbatim>\<open>runAmqpService\<close> (lines 392 and 393) and handed to the client library with
  \<^verbatim>\<open>NotifyCancel\<close> and \<^verbatim>\<open>NotifyClose\<close> (lines 460 and 461), always together. The
  library keeps them with the AMQP channel they are registered on and closes them when
  that AMQP channel shuts down. \<open>listeners\<close> lists the AMQP channels that hold them, one
  entry for each registration, and \<open>notifyClosed\<close> tells whether they have been closed.
  The state follows the calls of the package: the registration, and the two
  \<^verbatim>\<open>Close\<close> calls of the teardown. A shutdown that the broker starts reaches the
  goroutine as an event of its \<^verbatim>\<open>select\<close>, and the AMQP channel it shuts down is then
  counted where the teardown closes it: once in both cases.
\<close>

record world =
  service :: AmqpService
  trace :: "effect list"
  starter :: starter
  listeners :: "chan_id list"
  notifyClosed :: bool

datatype ('a, 's) outcome = Returns 'a 's | Parks 's | Panics 's

fun andThen :: "('a, 's) outcome \<Rightarrow> ('a \<Rightarrow> 's \<Rightarrow> ('b, 's) outcome) \<Rightarrow> ('b, 's) outcome" where
  "andThen (Returns a s) f = f a s"
| "andThen (Parks s) f = Parks s"
| "andThen (Panics s) f = Panics s"

fun final :: "('a, 's) outcome \<Rightarrow> 's" where
  "final (Returns a s) = s"
| "final (Parks s) = s"
| "final (Panics s) = s"

fun returned :: "('a, 's) outcome \<Rightarrow> bool" where
  "returned (Returns a s) = True"
| "returned (Parks s) = False"
| "returned (Panics s) = False"

definition emit :: "effect \<Rightarrow> world \<Rightarrow> world" where
  "emit e w = w\<lparr>trace := trace w @ [e]\<rparr>"

definition logging :: "level \<Rightarrow> string \<Rightarrow> world \<Rightarrow> world" where
  "logging l m w = emit (Log l m) w"

definition upd_Receiver :: "(AmqpReceiver \<Rightarrow> AmqpReceiver) \<Rightarrow> world \<Rightarrow> world" where
  "upd_Receiver f w = w\<lparr>service := (service w)\<lparr>Receiver := f (Receiver (service w))\<rparr>\<rparr>"

definition upd_Sender :: "(AmqpSender \<Rightarrow> AmqpSender) \<Rightarrow> world \<Rightarrow> world" where
  "upd_Sender f w = w\<lparr>service := (service w)\<lparr>Sender := f (Sender (service w))\<rparr>\<rparr>"

text \<open>A send on a channel of the state: \<open>put\<close> stores the channel after the send.\<close>

fun sending :: "'a sent \<Rightarrow> ('a chan \<Rightarrow> 's) \<Rightarrow> 's \<Rightarrow> (unit, 's) outcome" where
  "sending (Sent c) put s = Returns () (put c)"
| "sending Full put s = Parks s"
| "sending SendOnClosed put s = Panics s"

definition signalDone :: "bool \<Rightarrow> world \<Rightarrow> (unit, world) outcome" where
  "signalDone v w =
     (let d = DoneSignal (service w) in
      if starter w = AwaitingDone \<and> buf d = [] \<and> \<not> closed d
      then Returns () (emit (Signal v) (w\<lparr>starter := GotDone v\<rparr>))
      else sending (chan_send d v)
             (\<lambda>c. emit (Signal v) (w\<lparr>service := (service w)\<lparr>DoneSignal := c\<rparr>\<rparr>)) w)"

subsection \<open>The notification channels in the client library\<close>

text \<open>
  Closing a closed Go channel panics: closing the pair \<open>n\<close> times panics from the second
  time on, and at once if the pair is closed already.
\<close>

definition closingPanics :: "nat \<Rightarrow> bool \<Rightarrow> bool" where
  "closingPanics n alreadyClosed = (2 \<le> n \<or> (1 \<le> n \<and> alreadyClosed))"

text \<open>The registration of lines 460 and 461 on the AMQP channel \<open>ch\<close>.\<close>

definition registerNotify :: "chan_id \<Rightarrow> world \<Rightarrow> world" where
  "registerNotify ch w = w\<lparr>listeners := listeners w @ [ch]\<rparr>"

text \<open>
  The shutdown of the AMQP channel \<open>ch\<close>: the library closes the Go channels registered
  on it, once for each registration. The flag tells whether that panics.
\<close>

definition shutdownChannel :: "chan_id \<Rightarrow> world \<Rightarrow> world \<times> bool" where
  "shutdownChannel ch w =
     (let n = count_list (listeners w) ch in
      (w\<lparr>listeners := removeAll ch (listeners w), notifyClosed := notifyClosed w \<or> 1 \<le> n\<rparr>,
       closingPanics n (notifyClosed w)))"

text \<open>The shutdown of the connection shuts down every AMQP channel still open on it.\<close>

definition shutdownConnection :: "world \<Rightarrow> world \<times> bool" where
  "shutdownConnection w =
     (let n = length (listeners w) in
      (w\<lparr>listeners := [], notifyClosed := notifyClosed w \<or> 1 \<le> n\<rparr>,
       closingPanics n (notifyClosed w)))"

text \<open>
  \<^verbatim>\<open>Close()\<close> on an AMQP channel and on the connection: the call, then the shutdown.
\<close>

definition closeChannel :: "chan_id \<Rightarrow> world \<Rightarrow> world \<times> bool" where
  "closeChannel ch w = shutdownChannel ch (emit (ChannelClose ch) w)"

definition closeConnection :: "conn_id \<Rightarrow> world \<Rightarrow> world \<times> bool" where
  "closeConnection conn w = shutdownConnection (emit (ConnectionClose conn) w)"

subsection \<open>Helpers of the package that are not in service.go\<close>

text \<open>
  Modelled from the spec: \<^verbatim>\<open>DecodeAndHandle\<close> (declared in message.go, not under
  src/). Section 4.1: decoding inspects the kind and the decoded message goes to one of
  the four handlers supplied by the caller, selected by kind, exactly one per decoded
  message; a decode failure is reported to the caller and no handler runs. The state
  the handlers work on is a type parameter.
\<close>

definition DecodeAndHandle ::
  "(Delivery \<Rightarrow> error + decoded) \<Rightarrow> Delivery \<Rightarrow>
   (Request \<Rightarrow> 's \<Rightarrow> (unit, 's) outcome) \<Rightarrow> (Reply \<Rightarrow> 's \<Rightarrow> (unit, 's) outcome) \<Rightarrow>
   (Alert \<Rightarrow> 's \<Rightarrow> (unit, 's) outcome) \<Rightarrow> (Info \<Rightarrow> 's \<Rightarrow> (unit, 's) outcome) \<Rightarrow>
   's \<Rightarrow> (error option, 's) outcome" where
  "DecodeAndHandle decode amqpMessage requestHandler replyHandler alertHandler infoHandler s =
     (case decode amqpMessage of
        Inl decodeErr \<Rightarrow> Returns (Some decodeErr) s
      | Inr (IsRequest request) \<Rightarrow> andThen (requestHandler request s) (\<lambda>_. Returns None)
      | Inr (IsReply reply) \<Rightarrow> andThen (replyHandler reply s) (\<lambda>_. Returns None)
      | Inr (IsAlert alert) \<Rightarrow> andThen (alertHandler alert s) (\<lambda>_. Returns None)
      | Inr (IsInfo info) \<Rightarrow> andThen (infoHandler info s) (\<lambda>_. Returns None))"

text \<open>
  Modelled from the spec: \<^verbatim>\<open>PrepareReplyToRequest\<close> (message.go, not under src/).
  Section 4.5: the synthesized Reply carries the given status code and the correlation
  id of the request. It is addressed to the request's reply-to key; the spec names no
  other field.
\<close>

definition PrepareReplyToRequest :: "Request \<Rightarrow> RetCode \<Rightarrow> string \<Rightarrow> SenderInfo \<Rightarrow> Reply" where
  "PrepareReplyToRequest request retCode returnMessage sInfo =
     \<lparr>MsgType = MTReply, Target = ReplyTo request, Encoding = Encoding request,
      ReplyTo = [], CorrId = CorrId request, Sender_Info = sInfo, exchange = [],
      Ret_Code = retCode, ReturnMsg = returnMessage, ReplyPayload = []\<rparr>"

subsection \<open>Start-service functions: the defaults\<close>

definition noSenderInfo :: SenderInfo where
  "noSenderInfo = \<lparr>Package = [], Exe = [], Hostname = [], Username = []\<rparr>"

definition ServiceDefaults :: AmqpService where
  "ServiceDefaults =
     \<lparr>BrokerAddress = ''localhost'',
      Connected = False,
      DoneSignal = make_chan 1,
      Receiver = \<lparr>QueueName = ''my_queue'',
                  RequestChan = make_chan 100,
                  AlertChan = make_chan 100,
                  InfoChan = make_chan 100,
                  subscriptionCount = 0,
                  messageQueue = None\<rparr>,
      Sender = \<lparr>RequestExchangeName = ''requests'',
                AlertExchangeName = ''alerts'',
                InfoExchangeName = ''requests'',
                requestChan = make_chan 100,
                replyChan = make_chan 100,
                alertChan = make_chan 100,
                infoChan = make_chan 100\<rparr>,
      channel = None,
      connection = None,
      stopQueue = make_chan 5,
      senderInfo = noSenderInfo\<rparr>"

subsection \<open>Send-message functions\<close>

text \<open>
  Log messages are the source's, without format directives and their arguments.

  What the broker answers to the four calls of \<^verbatim>\<open>SendRequest\<close>: opening the
  channel, declaring the reply queue (the broker names it), binding it, consuming.
\<close>

record reply_env =
  replyChannelRes :: "error + chan_id"
  replyQueueRes :: "error + string"
  replyBindErr :: "error option"
  replyConsumeRes :: "error + stream_id"

text \<open>
  The variables the goroutine of \<^verbatim>\<open>SendRequest\<close> captures. The call returns
  \<^verbatim>\<open>(replyChan, e)\<close>; a \<^verbatim>\<open>replyChan\<close> that is not \<^verbatim>\<open>nil\<close> is the
  channel \<open>replyChanFull\<close>, returned here with the goroutine waiting on it.
\<close>

record replyWait =
  replyChannel :: chan_id
  amqpReplyChan :: stream_id
  toSend :: Request
  replyTimeout :: int
  replyChanFull :: "Reply chan"

definition SendRequest ::
  "Request \<Rightarrow> int \<Rightarrow> reply_env \<Rightarrow> world \<Rightarrow> (replyWait option \<times> error option, world) outcome" where
  "SendRequest request timeout env w0 =
     (let w1 = logging DEBUG ''Submitting request to send'' w0 in
      case connection (service w1) of
        None \<Rightarrow> Panics w1
      | Some conn \<Rightarrow>
         (let w2 = emit (ConnChannel conn) w1 in
          case replyChannelRes env of
            Inl chanErr \<Rightarrow>
              andThen (signalDone True (logging CRITICAL ''Unable to get the reply channel'' w2))
                (\<lambda>_. Returns (None, None))
          | Inr rChannel \<Rightarrow>
             (let w3 = logging DEBUG ''Channel with AMQP broker established'' w2;
                  w4 = emit (QueueDeclare rChannel [] False True True False) w3 in
              case replyQueueRes env of
                Inl declareErr \<Rightarrow>
                  Returns (None, Some declareErr)
                    (logging ERROR ''Unable to declare the reply queue'' w4)
              | Inr queueName \<Rightarrow>
                 (let request' = request\<lparr>ReplyTo := queueName\<rparr>;
                      w5 = emit (QueueBind rChannel queueName queueName
                                   (RequestExchangeName (Sender (service w4))) False) w4 in
                  case replyBindErr env of
                    Some bindErr \<Rightarrow>
                      Returns (None, Some bindErr)
                        (logging ERROR ''Unable to bind the reply queue'' w5)
                  | None \<Rightarrow>
                     (let w6 = emit (Consume rChannel queueName [] False True True False) w5 in
                      case replyConsumeRes env of
                        Inl consumeErr \<Rightarrow>
                          Returns (None, Some consumeErr)
                            (logging ERROR ''Unable start consuming from reply queue'' w6)
                      | Inr rStream \<Rightarrow>
                          andThen
                            (sending (chan_send (requestChan (Sender (service w6))) request')
                               (\<lambda>c. upd_Sender (\<lambda>s. s\<lparr>requestChan := c\<rparr>) w6) w6)
                            (\<lambda>_ w7. Returns
                               (Some \<lparr>replyChannel = rChannel, amqpReplyChan = rStream,
                                      toSend = request', replyTimeout = timeout,
                                      replyChanFull = make_chan 1\<rparr>, None)
                               (logging DEBUG ''Request sent'' w7)))))))"

text \<open>
  The goroutine started by \<^verbatim>\<open>SendRequest\<close>. \<open>arrival\<close> is the first delivery
  on \<open>amqpReplyChan\<close>, if one comes (before the timer, when there is a timer);
  \<open>replyCloseErr\<close> is what \<^verbatim>\<open>replyChannel.Close()\<close> answers. The state is the
  world and the caller's channel \<open>replyChanFull\<close>.
\<close>

record wait_env =
  arrival :: "Delivery option"
  replyCloseErr :: "error option"

definition SendRequest_goroutine ::
  "codec \<Rightarrow> replyWait \<Rightarrow> wait_env \<Rightarrow> world \<Rightarrow> (unit, world \<times> Reply chan) outcome" where
  "SendRequest_goroutine cd rw env w0 =
     andThen
       (if replyTimeout rw \<le> 0 then
          (case arrival env of
             None \<Rightarrow> Parks (w0, replyChanFull rw)
           | Some amqpMessage \<Rightarrow> Returns (Some amqpMessage) (w0, replyChanFull rw))
        else
          (case arrival env of
             Some amqpMessage \<Rightarrow> Returns (Some amqpMessage) (w0, replyChanFull rw)
           | None \<Rightarrow>
              (let w1 = logging WARNING ''Timed out waiting for reply'' w0 in
               andThen
                 (sending
                    (chan_send (replyChanFull rw)
                       (PrepareReplyToRequest (toSend rw) RCErrDripTimeout
                          ''Timeout while waiting for reply'' (senderInfo (service w1))))
                    (\<lambda>c. (w1, c)) (w1, replyChanFull rw))
                 (\<lambda>_. Returns None))))
       (\<lambda>messageReceived st.
          andThen
            (case messageReceived of
               None \<Rightarrow> Returns True st
             | Some amqpMessage \<Rightarrow>
                 andThen
                   (DecodeAndHandle (Decode cd) amqpMessage
                      (\<lambda>request (w, c). Returns ()
                         (logging ERROR ''Unexpected request received while waiting for a reply'' w, c))
                      (\<lambda>reply (w, c). sending (chan_send c reply) (\<lambda>c'. (w, c')) (w, c))
                      (\<lambda>alert (w, c). Returns ()
                         (logging ERROR ''Unexpected alert received while waiting for a reply'' w, c))
                      (\<lambda>info (w, c). Returns ()
                         (logging ERROR ''Unexpected info received while waiting for a reply'' w, c))
                      (emit (Ack amqpMessage False) (fst st), snd st))
                   (\<lambda>decodeErr (w, c).
                      case decodeErr of
                        Some e \<Rightarrow> Returns False
                          (logging ERROR ''An error occurred while decoding a message'' w, c)
                      | None \<Rightarrow> Returns True (w, c)))
            (\<lambda>goesOn (w, c).
               if \<not> goesOn then Returns () (w, c)
               else
                 (let w1 = emit (ChannelClose (replyChannel rw))
                             (logging DEBUG ''Closing the reply channel'' w) in
                  Returns ()
                    (case replyCloseErr env of
                       Some err \<Rightarrow> logging ERROR ''Error while closing reply queue'' w1
                     | None \<Rightarrow> w1, c))))"

definition SendReply :: "Reply \<Rightarrow> world \<Rightarrow> (error option, world) outcome" where
  "SendReply msg w =
     andThen (sending (chan_send (replyChan (Sender (service w))) msg)
                (\<lambda>c. upd_Sender (\<lambda>s. s\<lparr>replyChan := c\<rparr>) w) w)
       (\<lambda>_. Returns None)"

definition SendAlert :: "Alert \<Rightarrow> world \<Rightarrow> (error option, world) outcome" where
  "SendAlert msg w =
     andThen (sending (chan_send (alertChan (Sender (service w))) msg)
                (\<lambda>c. upd_Sender (\<lambda>s. s\<lparr>alertChan := c\<rparr>) w) w)
       (\<lambda>_. Returns None)"

definition SendInfo :: "Info \<Rightarrow> world \<Rightarrow> (error option, world) outcome" where
  "SendInfo msg w =
     andThen (sending (chan_send (infoChan (Sender (service w))) msg)
                (\<lambda>c. upd_Sender (\<lambda>s. s\<lparr>infoChan := c\<rparr>) w) w)
       (\<lambda>_. Returns None)"

definition Stop :: "world \<Rightarrow> (unit, world) outcome" where
  "Stop w =
     (let w1 = logging DEBUG ''Submitting stop request'' w in
      sending (chan_send (stopQueue (service w1)) True)
        (\<lambda>c. w1\<lparr>service := (service w1)\<lparr>stopQueue := c\<rparr>\<rparr>) w1)"

subsection \<open>Private functions\<close>

text \<open>
  What the operating system answers to \<^verbatim>\<open>osext.Executable()\<close>,
  \<^verbatim>\<open>os.Hostname()\<close> and \<^verbatim>\<open>user.Current()\<close>: the value and the error.
\<close>

record sys_env =
  executable :: "string \<times> error option"
  hostname :: "string \<times> error option"
  currentUser :: "string \<times> error option"

definition fillDriplineSenderInfo :: "sys_env \<Rightarrow> world \<Rightarrow> error option \<times> world" where
  "fillDriplineSenderInfo env w =
     (let si1 = (senderInfo (service w))\<lparr>Package := ''dripline''\<rparr>;
          si2 = si1\<lparr>Exe := fst (executable env)\<rparr> in
      if snd (executable env) \<noteq> None
      then (snd (executable env), w\<lparr>service := (service w)\<lparr>senderInfo := si2\<rparr>\<rparr>)
      else
        (let si3 = si2\<lparr>Hostname := fst (hostname env)\<rparr> in
         if snd (hostname env) \<noteq> None
         then (snd (hostname env), w\<lparr>service := (service w)\<lparr>senderInfo := si3\<rparr>\<rparr>)
         else if snd (currentUser env) \<noteq> None
         then (snd (currentUser env), w\<lparr>service := (service w)\<lparr>senderInfo := si3\<rparr>\<rparr>)
         else (None, w\<lparr>service := (service w)
                 \<lparr>senderInfo := si3\<lparr>Username := fst (currentUser env)\<rparr>\<rparr>\<rparr>)))"

text \<open>
  \<open>consumeRes\<close> is what the broker answers to \<^verbatim>\<open>Consume\<close>. A method called
  on the \<^verbatim>\<open>nil\<close> channel panics inside the client library.
\<close>

definition beginConsuming :: "error + stream_id \<Rightarrow> world \<Rightarrow> (unit, world) outcome" where
  "beginConsuming consumeRes w =
     (if subscriptionCount (Receiver (service w)) = 0 then Returns () w
      else
        (case channel (service w) of
           None \<Rightarrow> Panics w
         | Some ch \<Rightarrow>
            (let w1 = emit (Consume ch (QueueName (Receiver (service w))) [] False True True False) w in
             case consumeRes of
               Inl consumeErr \<Rightarrow>
                 signalDone True (logging CRITICAL ''Unable start consuming from queue'' w1)
             | Inr mq \<Rightarrow>
                (let w2 = upd_Receiver (\<lambda>r. r\<lparr>messageQueue := Some mq\<rparr>) w1;
                     w3 = logging DEBUG ''Started consuming on queue'' w2 in
                 sending (chan_send (stopQueue (service w3)) False)
                   (\<lambda>c. w3\<lparr>service := (service w3)\<lparr>stopQueue := c\<rparr>\<rparr>) w3))))"

subsection \<open>Subscribe functions\<close>

record sub_env =
  bindErr :: "error option"
  subConsumeRes :: "error + stream_id"

text \<open>
  The three functions differ in the exchange they bind; \<open>subscribeTo\<close> is their common
  body, with the exchange's name read from the sender by \<open>ex\<close>.
\<close>

definition subscribeTo ::
  "(AmqpSender \<Rightarrow> string) \<Rightarrow> string \<Rightarrow> sub_env \<Rightarrow> world \<Rightarrow> (error option, world) outcome" where
  "subscribeTo ex routingKey env w =
     (if Connected (service w) = False
      then Returns (Some ''Service is not connected to a broker'') w
      else
        (case channel (service w) of
           None \<Rightarrow> Panics w
         | Some ch \<Rightarrow>
            (let w1 = emit (QueueBind ch (QueueName (Receiver (service w))) routingKey
                              (ex (Sender (service w))) False) w in
             case bindErr env of
               Some e \<Rightarrow> Returns (Some e) w1
             | None \<Rightarrow>
                 andThen
                   (beginConsuming (subConsumeRes env)
                      (upd_Receiver (\<lambda>r. r\<lparr>subscriptionCount := subscriptionCount r + 1\<rparr>) w1))
                   (\<lambda>_ w2. Returns None (logging DEBUG ''Subscription established'' w2)))))"

definition SubscribeToRequests :: "string \<Rightarrow> sub_env \<Rightarrow> world \<Rightarrow> (error option, world) outcome" where
  "SubscribeToRequests routingKey env w = subscribeTo RequestExchangeName routingKey env w"

definition SubscribeToAlerts :: "string \<Rightarrow> sub_env \<Rightarrow> world \<Rightarrow> (error option, world) outcome" where
  "SubscribeToAlerts routingKey env w = subscribeTo AlertExchangeName routingKey env w"

definition SubscribeToInfos :: "string \<Rightarrow> sub_env \<Rightarrow> world \<Rightarrow> (error option, world) outcome" where
  "SubscribeToInfos routingKey env w = subscribeTo InfoExchangeName routingKey env w"

subsection \<open>Publishing a message\<close>

text \<open>
  \<open>newUuid\<close> is what \<^verbatim>\<open>uuid.New()\<close> returns, \<open>publishErr\<close> what
  \<^verbatim>\<open>channel.Publish\<close> answers.
\<close>

record pub_env =
  newUuid :: string
  publishErr :: "error option"

definition send ::
  "'a Message_scheme \<Rightarrow> chan_id option \<Rightarrow> string \<Rightarrow> pub_env \<Rightarrow> world \<Rightarrow> (unit, world) outcome" where
  "send message ch body env w =
     (let correlationId = (if CorrId message = [] then newUuid env else CorrId message);
          amqpMessage = \<lparr>ContentEncoding = Encoding message, Body = body,
                         Reply_To = ReplyTo message, CorrelationId = correlationId\<rparr>;
          w1 = logging DEBUG ''Sending message to routing key'' w in
      case ch of
        None \<Rightarrow> Panics w1
      | Some c \<Rightarrow>
         (let w2 = emit (Publish c (exchange message) (Target message) False False amqpMessage) w1 in
          Returns ()
            (case publishErr env of
               Some pubErr \<Rightarrow> logging ERROR ''Error while sending message'' w2
             | None \<Rightarrow> w2)))"

subsection \<open>The channel set-up closure of runAmqpService\<close>

record setup_env =
  channelRes :: "error + chan_id"
  queueDeclareErr :: "error option"
  consumeRes :: "error + stream_id"
  requestExchangeErr :: "error option"
  alertExchangeErr :: "error option"
  infoExchangeErr :: "error option"

text \<open>
  One of the three exchange blocks of the closure. The result tells whether the closure
  goes on (\<open>True\<close>) or has returned after reporting the failure (\<open>False\<close>).
\<close>

definition declareExchange ::
  "chan_id \<Rightarrow> string \<Rightarrow> error option \<Rightarrow> string \<Rightarrow> string \<Rightarrow> world \<Rightarrow> (bool, world) outcome" where
  "declareExchange ch name exchangeErr failed ready w =
     (if name \<noteq> [] then
        (let w1 = emit (ExchangeDeclare ch name ''topic'' False False False False) w in
         case exchangeErr of
           Some e \<Rightarrow> andThen (signalDone True (logging CRITICAL failed w1)) (\<lambda>_. Returns False)
         | None \<Rightarrow> Returns True (logging DEBUG ready w1))
      else Returns True w)"

definition channelSetupFunc :: "conn_id \<Rightarrow> setup_env \<Rightarrow> world \<Rightarrow> (unit, world) outcome" where
  "channelSetupFunc conn env w0 =
     (let w1 = emit (ConnChannel conn) w0 in
      case channelRes env of
        Inl chanErr \<Rightarrow> signalDone True (logging CRITICAL ''Unable to get the AMQP channel'' w1)
      | Inr ch \<Rightarrow>
         (let w2 = logging DEBUG ''Channel with AMQP broker established'' w1;
              w3 = w2\<lparr>service := (service w2)\<lparr>channel := Some ch\<rparr>\<rparr> in
          andThen
            (if QueueName (Receiver (service w3)) \<noteq> [] then
               (let w4 = emit (QueueDeclare ch (QueueName (Receiver (service w3)))
                                 False True True False) w3 in
                case queueDeclareErr env of
                  Some queueDeclErr \<Rightarrow>
                    andThen (signalDone True (logging CRITICAL queueDeclErr w4)) (\<lambda>_. Returns False)
                | None \<Rightarrow>
                    andThen (beginConsuming (consumeRes env) (logging DEBUG ''Queue declared'' w4))
                      (\<lambda>_ w5. Returns True
                         (logging INFO ''AMQP service ready to receive messages'' w5)))
             else Returns True w3)
            (\<lambda>goesOn w6.
               if \<not> goesOn then Returns () w6
               else
                 andThen
                   (declareExchange ch (RequestExchangeName (Sender (service w6)))
                      (requestExchangeErr env) ''Unable to declare the requests exchange''
                      ''Requests exchange is ready'' w6)
                   (\<lambda>goesOn w7.
                      if \<not> goesOn then Returns () w7
                      else
                        andThen
                          (declareExchange ch (AlertExchangeName (Sender (service w7)))
                             (alertExchangeErr env) ''Unable to declare the alerts exchange''
                             ''Alerts exchange is ready'' w7)
                          (\<lambda>goesOn w8.
                             if \<not> goesOn then Returns () w8
                             else
                               andThen
                                 (declareExchange ch (InfoExchangeName (Sender (service w8)))
                                    (infoExchangeErr env) ''Unable to declare the infos exchange''
                                    ''Infos exchange is ready'' w8)
                                 (\<lambda>goesOn w9.
                                    if \<not> goesOn then Returns () w9
                                    else Returns ()
                                      (logging INFO ''AMQP service ready to send messages''
                                         (registerNotify ch
                                            (emit (NotifyClose ch)
                                               (emit (NotifyCancel ch) w9))))))))))"

subsection \<open>The select loop of runAmqpService\<close>

text \<open>
  One iteration of \<^verbatim>\<open>amqpLoop\<close> services one ready case of the \<^verbatim>\<open>select\<close>.
  A schedule lists, iteration by iteration, the case the runtime picks. The three
  notification channels and the delivery stream are fed by the client library, so
  their events carry what is received (\<open>FeedClosed\<close> is \<^verbatim>\<open>chanOpen == false\<close>);
  the control channel and the four outgoing channels are read from the state, and a
  case whose channel is not ready cannot be picked: the loop stays in the
  \<^verbatim>\<open>select\<close>. An event also carries what the broker answers to the calls its
  case makes.
\<close>

datatype 'a feed = Fires 'a | FeedClosed

datatype event =
    SelStopQueue
  | SelConnClose "string feed"
  | SelChannelCancel "string feed" setup_env
  | SelChannelClose "string feed"
  | SelRequestChan pub_env
  | SelReplyChan pub_env
  | SelAlertChan pub_env
  | SelInfoChan pub_env
  | SelMessageQueue "Delivery feed"

datatype ctl = Continue | Break

fun amqpSelect :: "conn_id \<Rightarrow> codec \<Rightarrow> event \<Rightarrow> world \<Rightarrow> (ctl, world) outcome" where
  "amqpSelect conn cd SelStopQueue w =
     (case chan_recv (stopQueue (service w)) of
        NotReady \<Rightarrow> Parks w
      | ChanClosed \<Rightarrow> Returns Break (logging ERROR ''Control queue is closed'' w)
      | Received stopSig c \<Rightarrow>
         (let w1 = w\<lparr>service := (service w)\<lparr>stopQueue := c\<rparr>\<rparr> in
          if stopSig = True
          then Returns Break (logging INFO ''AMQP service stopping on interrupt.'' w1)
          else Returns Continue
                 (logging DEBUG ''Received on the stop queue, but it was not true'' w1)))"
| "amqpSelect conn cd (SelConnClose x) w =
     (case x of
        FeedClosed \<Rightarrow> Returns Break (logging ERROR ''Connection-close channel is closed'' w)
      | Fires connectionClosed \<Rightarrow>
          Returns Break (logging WARNING ''AMQP connection was closed'' w))"
| "amqpSelect conn cd (SelChannelCancel x env) w =
     (case x of
        FeedClosed \<Rightarrow> Returns Break (logging ERROR ''Channel-cancel channel is closed'' w)
      | Fires channelCanceled \<Rightarrow>
          andThen
            (channelSetupFunc conn env
               (logging INFO ''Attempting to re-open the channel''
                  (logging WARNING ''AMQP channel was canceled'' w)))
            (\<lambda>_. Returns Break))"
| "amqpSelect conn cd (SelChannelClose x) w =
     (case x of
        FeedClosed \<Rightarrow> Returns Break (logging ERROR ''Channel-close channel is closed'' w)
      | Fires channelClosed \<Rightarrow>
          Returns Break (logging WARNING ''AMQP channel was closed'' w))"
| "amqpSelect conn cd (SelRequestChan env) w =
     (case chan_recv (requestChan (Sender (service w))) of
        NotReady \<Rightarrow> Parks w
      | ChanClosed \<Rightarrow> Returns Break (logging ERROR ''Outgoing request channel is closed'' w)
      | Received request c \<Rightarrow>
         (let w1 = logging DEBUG ''Sending a request''
                     (upd_Sender (\<lambda>s. s\<lparr>requestChan := c\<rparr>) w) in
          case EncodeRequest cd request of
            Inl encErr \<Rightarrow> Returns Continue
              (logging ERROR ''An error occurred while encoding a request message'' w1)
          | Inr body \<Rightarrow>
              andThen (send request (channel (service w1)) body env w1) (\<lambda>_. Returns Continue)))"
| "amqpSelect conn cd (SelReplyChan env) w =
     (case chan_recv (replyChan (Sender (service w))) of
        NotReady \<Rightarrow> Parks w
      | ChanClosed \<Rightarrow> Returns Break (logging ERROR ''Outgoing reply channel is closed'' w)
      | Received reply c \<Rightarrow>
         (let w1 = logging DEBUG ''Sending a reply''
                     (upd_Sender (\<lambda>s. s\<lparr>replyChan := c\<rparr>) w) in
          case EncodeReply cd reply of
            Inl encErr \<Rightarrow> Returns Continue
              (logging ERROR ''An error occurred while encoding a reply message'' w1)
          | Inr body \<Rightarrow>
              andThen (send reply (channel (service w1)) body env w1) (\<lambda>_. Returns Continue)))"
| "amqpSelect conn cd (SelAlertChan env) w =
     (case chan_recv (alertChan (Sender (service w))) of
        NotReady \<Rightarrow> Parks w
      | ChanClosed \<Rightarrow> Returns Break (logging ERROR ''Outgoing alert channel is closed'' w)
      | Received alert c \<Rightarrow>
         (let w1 = logging DEBUG ''Sending a alert''
                     (upd_Sender (\<lambda>s. s\<lparr>alertChan := c\<rparr>) w) in
          case EncodeAlert cd alert of
            Inl encErr \<Rightarrow> Returns Continue
              (logging ERROR ''An error occurred while encoding an alert message'' w1)
          | Inr body \<Rightarrow>
              andThen (send alert (channel (service w1)) body env w1) (\<lambda>_. Returns Continue)))"
| "amqpSelect conn cd (SelInfoChan env) w =
     (case chan_recv (infoChan (Sender (service w))) of
        NotReady \<Rightarrow> Parks w
      | ChanClosed \<Rightarrow> Returns Break (logging ERROR ''Outgoing info channel is closed'' w)
      | Received info c \<Rightarrow>
         (let w1 = logging DEBUG ''Sending a info''
                     (upd_Sender (\<lambda>s. s\<lparr>infoChan := c\<rparr>) w) in
          case EncodeInfo cd info of
            Inl encErr \<Rightarrow> Returns Continue
              (logging ERROR ''An error occurred while encoding an info message'' w1)
          | Inr body \<Rightarrow>
              andThen (send info (channel (service w1)) body env w1) (\<lambda>_. Returns Continue)))"
| "amqpSelect conn cd (SelMessageQueue x) w =
     (case messageQueue (Receiver (service w)) of
        None \<Rightarrow> Parks w
      | Some mq \<Rightarrow>
         (case x of
            FeedClosed \<Rightarrow> Returns Break (logging ERROR ''Incoming message channel is closed'' w)
          | Fires amqpMessage \<Rightarrow>
              andThen
                (DecodeAndHandle (Decode cd) amqpMessage
                   (\<lambda>request w'. sending (chan_send (RequestChan (Receiver (service w'))) request)
                      (\<lambda>c. upd_Receiver (\<lambda>r. r\<lparr>RequestChan := c\<rparr>) w') w')
                   (\<lambda>reply w'. Returns () (logging ERROR ''Received an unexpected reply'' w'))
                   (\<lambda>alert w'. sending (chan_send (AlertChan (Receiver (service w'))) alert)
                      (\<lambda>c. upd_Receiver (\<lambda>r. r\<lparr>AlertChan := c\<rparr>) w') w')
                   (\<lambda>info w'. sending (chan_send (InfoChan (Receiver (service w'))) info)
                      (\<lambda>c. upd_Receiver (\<lambda>r. r\<lparr>InfoChan := c\<rparr>) w') w')
                   (emit (Ack amqpMessage False) w))
                (\<lambda>decodeErr w'.
                   Returns Continue
                     (case decodeErr of
                        Some e \<Rightarrow> logging ERROR ''An error occurred while decoding a message'' w'
                      | None \<Rightarrow> w'))))"

text \<open>
  The loop over a schedule. When the schedule is used up the goroutine waits in the
  \<^verbatim>\<open>select\<close>; \<open>Returns\<close> is \<^verbatim>\<open>break amqpLoop\<close>.
\<close>

fun amqpLoop :: "conn_id \<Rightarrow> codec \<Rightarrow> event list \<Rightarrow> world \<Rightarrow> (unit, world) outcome" where
  "amqpLoop conn cd [] w = Parks w"
| "amqpLoop conn cd (ev # evs) w =
     andThen (amqpSelect conn cd ev w)
       (\<lambda>c w'. case c of Break \<Rightarrow> Returns () w' | Continue \<Rightarrow> amqpLoop conn cd evs w')"

subsection \<open>runAmqpService and StartService\<close>

text \<open>
  The three deferred calls, in the order they run (last deferred first): the closure
  that deletes the queue, \<^verbatim>\<open>service.channel.Close()\<close> and
  \<^verbatim>\<open>connection.Close()\<close>. The closure reads \<^verbatim>\<open>service.channel\<close> when it
  runs, while the deferred \<^verbatim>\<open>Close\<close> fixed its channel when it was deferred
  (\<open>deferredChannel\<close>). The two \<^verbatim>\<open>Close\<close> calls shut down what they close, and
  with it the notification channels registered there. A deferred call that panics does
  not stop the ones after it; the flag tells whether one of them panicked.
\<close>

definition deferredCalls ::
  "error option \<Rightarrow> chan_id option \<Rightarrow> conn_id \<Rightarrow> world \<Rightarrow> world \<times> bool" where
  "deferredCalls queueDeleteErr deferredChannel conn w =
     (let r1 = (case channel (service w) of
                  None \<Rightarrow> (w, True)
                | Some ch \<Rightarrow>
                   (let w1 = emit (QueueDelete ch (QueueName (Receiver (service w)))
                                     False False False) w in
                    (case queueDeleteErr of
                       Some err \<Rightarrow> logging ERROR ''Error while deleting queue'' w1
                     | None \<Rightarrow> w1, False)));
          r2 = (case deferredChannel of
                  None \<Rightarrow> (fst r1, True)
                | Some ch \<Rightarrow> closeChannel ch (fst r1));
          r3 = closeConnection conn (fst r2)
      in (fst r3, snd r1 \<or> snd r2 \<or> snd r3))"

text \<open>
  What \<^verbatim>\<open>runAmqpService\<close> does once the loop is left (\<^verbatim>\<open>break amqpLoop\<close>):
  the send on \<^verbatim>\<open>DoneSignal\<close> of line 612, the \<^verbatim>\<open>return\<close>, and with it the
  deferred calls. They also run if the send panics, and not while it is blocked.
\<close>

definition leaveLoop ::
  "error option \<Rightarrow> chan_id option \<Rightarrow> conn_id \<Rightarrow> world \<Rightarrow> (unit, world) outcome" where
  "leaveLoop queueDeleteErr deferredChannel conn w =
     (case signalDone True w of
        Parks w1 \<Rightarrow> Parks w1
      | Panics w1 \<Rightarrow> Panics (fst (deferredCalls queueDeleteErr deferredChannel conn w1))
      | Returns u w1 \<Rightarrow>
          if snd (deferredCalls queueDeleteErr deferredChannel conn w1)
          then Panics (fst (deferredCalls queueDeleteErr deferredChannel conn w1))
          else Returns () (fst (deferredCalls queueDeleteErr deferredChannel conn w1)))"

record run_env =
  sysInfo :: sys_env
  firstDial :: "error + conn_id"
  secondDial :: "error + conn_id"
  firstSetup :: setup_env
  queueDeleteErr :: "error option"

text \<open>
  Lines 364 to 381 without the final failure branch: the sender information, the first
  dial and, if it fails, the wait of ten seconds and the second dial. The result is what
  \<^verbatim>\<open>connection, receiveErr\<close> hold after it.
\<close>

definition dialBroker :: "run_env \<Rightarrow> world \<Rightarrow> (error + conn_id) \<times> world" where
  "dialBroker env w0 =
     (let w1 = (case fst (fillDriplineSenderInfo (sysInfo env) w0) of
                  Some siErr \<Rightarrow> logging WARNING ''Unable to properly fill dripline sender info''
                                  (snd (fillDriplineSenderInfo (sysInfo env) w0))
                | None \<Rightarrow> snd (fillDriplineSenderInfo (sysInfo env) w0));
          w2 = emit (Dial (BrokerAddress (service w1))) w1
      in case firstDial env of
           Inr conn \<Rightarrow> (Inr conn, w2)
         | Inl receiveErr \<Rightarrow>
             (secondDial env,
              emit (Dial (BrokerAddress (service w2)))
                (logging DEBUG ''Second attempt to connect''
                   (emit (Sleep 10)
                      (logging WARNING
                         ''Unable to connect on first attempt.  Waiting 10 seconds to try again.''
                         w2)))))"

text \<open>
  Lines 382 to 393, once the dial has succeeded: the connection is stored, the flag
  \<^verbatim>\<open>Connected\<close> is set and the close notification of the connection is asked for.
  The goroutine then runs the first channel set-up in this world. A panic runs the
  calls deferred by then: \<^verbatim>\<open>connection.Close()\<close> during the first channel set-up,
  all three after it.
\<close>

definition connectedTo :: "conn_id \<Rightarrow> world \<Rightarrow> world" where
  "connectedTo conn w2 =
     (let w3 = w2\<lparr>service := (service w2)\<lparr>connection := Some conn, Connected := True\<rparr>\<rparr>
      in emit (ConnNotifyClose conn) (logging DEBUG ''Connected to AMQP broker'' w3))"

definition runAmqpService ::
  "run_env \<Rightarrow> codec \<Rightarrow> event list \<Rightarrow> world \<Rightarrow> (unit, world) outcome" where
  "runAmqpService env cd sched w0 =
     (case fst (dialBroker env w0) of
        Inl receiveErr \<Rightarrow>
          signalDone True
            (logging CRITICAL ''Unable to connect to the AMQP broker'' (snd (dialBroker env w0)))
      | Inr conn \<Rightarrow>
         (let w4 = connectedTo conn (snd (dialBroker env w0))
          in case channelSetupFunc conn (firstSetup env) w4 of
               Parks w \<Rightarrow> Parks w
             | Panics w \<Rightarrow> Panics (fst (closeConnection conn w))
             | Returns u w5 \<Rightarrow>
                (case andThen
                        (signalDone False
                           (logging NOTICE ''AMQP service started successfully'' w5))
                        (\<lambda>_ w6. amqpLoop conn cd sched w6) of
                   Parks w \<Rightarrow> Parks w
                 | Panics w \<Rightarrow>
                     Panics (fst (deferredCalls (queueDeleteErr env) (channel (service w5)) conn w))
                 | Returns u w7 \<Rightarrow>
                     leaveLoop (queueDeleteErr env) (channel (service w5)) conn w7)))"

text \<open>
  The method \<^verbatim>\<open>StartService\<close>: it starts the goroutine and receives once from
  \<^verbatim>\<open>DoneSignal\<close>. The goroutine is run through the schedule; the method returns
  if a value reached it, and the process dies if the goroutine panics.
\<close>

definition AmqpService_StartService ::
  "run_env \<Rightarrow> codec \<Rightarrow> event list \<Rightarrow> world \<Rightarrow> (unit, world) outcome" where
  "AmqpService_StartService env cd sched w =
     (let w0 = (case chan_recv (DoneSignal (service w)) of
                  Received isDone c \<Rightarrow>
                    w\<lparr>service := (service w)\<lparr>DoneSignal := c\<rparr>, starter := GotDone isDone\<rparr>
                | ChanClosed \<Rightarrow> w\<lparr>starter := GotDone False\<rparr>
                | NotReady \<Rightarrow> w\<lparr>starter := AwaitingDone\<rparr>);
          r = runAmqpService env cd sched w0
      in case r of
           Panics w1 \<Rightarrow> Panics w1
         | _ \<Rightarrow>
            (case starter (final r) of
               GotDone isDone \<Rightarrow>
                 Returns ()
                   (if isDone then logging CRITICAL ''Service did not start'' (final r)
                    else final r)
             | _ \<Rightarrow> Parks (final r)))"

text \<open>
  The function \<^verbatim>\<open>StartService(brokerAddress, queueName)\<close>. Its result is the
  pointer to the service: \<open>None\<close> would be \<^verbatim>\<open>nil\<close>.
\<close>

definition StartService ::
  "string \<Rightarrow> string \<Rightarrow> run_env \<Rightarrow> codec \<Rightarrow> event list \<Rightarrow> (AmqpService option, world) outcome" where
  "StartService brokerAddress queueName env cd sched =
     (let s1 = ServiceDefaults\<lparr>BrokerAddress := brokerAddress\<rparr>;
          s2 = s1\<lparr>Receiver := (Receiver s1)\<lparr>QueueName := queueName\<rparr>\<rparr>
      in andThen
           (AmqpService_StartService env cd sched
              \<lparr>service = s2, trace = [], starter = NotStarting, listeners = [],
               notifyClosed = False\<rparr>)
           (\<lambda>_ w. Returns (Some (service w)) w))"

subsection \<open>Reading outcomes and traces\<close>

fun result :: "('a, 's) outcome \<Rightarrow> 'a option" where
  "result (Returns a s) = Some a"
| "result (Parks s) = None"
| "result (Panics s) = None"

text \<open>The call is blocked for good; the call ended in a panic.\<close>

fun parked :: "('a, 's) outcome \<Rightarrow> bool" where
  "parked (Returns a s) = False"
| "parked (Parks s) = True"
| "parked (Panics s) = False"

fun panicked :: "('a, 's) outcome \<Rightarrow> bool" where
  "panicked (Returns a s) = False"
| "panicked (Parks s) = False"
| "panicked (Panics s) = True"

text \<open>The connection the two dial attempts end with, if any.\<close>

definition dialResult :: "run_env \<Rightarrow> error + conn_id" where
  "dialResult env = (case firstDial env of Inr conn \<Rightarrow> Inr conn | Inl e \<Rightarrow> secondDial env)"

text \<open>
  Three sentences of the specification, in its words, as properties of a run.
  Section 4.2, step 6: the stop signal is sent after the connection is closed.
\<close>

definition signalled_after_teardown :: "conn_id \<Rightarrow> effect list \<Rightarrow> bool" where
  "signalled_after_teardown conn tr =
     (case dropWhile (\<lambda>e. e \<noteq> ConnectionClose conn) tr of
        [] \<Rightarrow> False
      | e # after \<Rightarrow> Signal True \<in> set after)"

text \<open>Section 4.2, step 2: the start call returns an error to the caller.\<close>

fun start_returns_error :: "(AmqpService option, world) outcome \<Rightarrow> bool" where
  "start_returns_error (Returns None w) = True"
| "start_returns_error r = False"

text \<open>
  Section 4.3: arming opens a delivery stream, installs it as the receiver's handle and
  pushes the sentinel onto the control channel.
\<close>

definition armed :: "world \<Rightarrow> world \<Rightarrow> bool" where
  "armed w w' =
     (messageQueue (Receiver (service w')) \<noteq> None \<and>
      buf (stopQueue (service w')) = buf (stopQueue (service w)) @ [False])"

subsection \<open>Example worlds, messages and answers of the broker\<close>

definition fresh_world :: world where
  "fresh_world =
     \<lparr>service = ServiceDefaults, trace = [], starter = NotStarting, listeners = [],
      notifyClosed = False\<rparr>"

text \<open>
  A started service: connection 1, primary channel 1 with the notification channels
  registered on it, nothing subscribed.
\<close>

definition running_world :: world where
  "running_world =
     \<lparr>service = ServiceDefaults\<lparr>Connected := True, channel := Some 1, connection := Some 1\<rparr>,
      trace = [], starter = GotDone False, listeners = [1], notifyClosed = False\<rparr>"

definition request0 :: Request where
  "request0 =
     \<lparr>MsgType = MTRequest, Target = ''q1.cmd'', Encoding = ''application/json'',
      ReplyTo = [], CorrId = ''c-1'', Sender_Info = noSenderInfo, exchange = ''requests'',
      MsgOp = ''get'', RequestPayload = []\<rparr>"

definition reply0 :: Reply where
  "reply0 =
     \<lparr>MsgType = MTReply, Target = ''amq.gen-1'', Encoding = ''application/json'',
      ReplyTo = [], CorrId = ''c-1'', Sender_Info = noSenderInfo, exchange = ''requests'',
      Ret_Code = RCSuccess, ReturnMsg = [], ReplyPayload = []\<rparr>"

definition alert0 :: Alert where
  "alert0 =
     \<lparr>MsgType = MTAlert, Target = ''q1.status'', Encoding = ''application/json'',
      ReplyTo = [], CorrId = ''c-2'', Sender_Info = noSenderInfo, exchange = ''alerts'',
      AlertPayload = []\<rparr>"

definition info0 :: Info where
  "info0 =
     \<lparr>MsgType = MTInfo, Target = ''q1.note'', Encoding = ''application/json'',
      ReplyTo = [], CorrId = ''c-3'', Sender_Info = noSenderInfo, exchange = ''requests'',
      InfoPayload = []\<rparr>"

text \<open>A codec that encodes anything and decodes by the body of the delivery.\<close>

definition codec0 :: codec where
  "codec0 =
     \<lparr>EncodeRequest = (\<lambda>m. Inr ''request''),
      EncodeReply = (\<lambda>m. Inr ''reply''),
      EncodeAlert = (\<lambda>m. Inr ''alert''),
      EncodeInfo = (\<lambda>m. Inr ''info''),
      Decode = (\<lambda>d. if DeliveryBody d = ''request'' then Inr (IsRequest request0)
                     else if DeliveryBody d = ''reply'' then Inr (IsReply reply0)
                     else if DeliveryBody d = ''alert'' then Inr (IsAlert alert0)
                     else if DeliveryBody d = ''info'' then Inr (IsInfo info0)
                     else Inl ''unknown message type'')\<rparr>"

definition delivery0 :: "string \<Rightarrow> Delivery" where
  "delivery0 body = \<lparr>DeliveryTag = 1, DeliveryBody = body\<rparr>"

definition granted_setup :: setup_env where
  "granted_setup =
     \<lparr>channelRes = Inr 1, queueDeclareErr = None, consumeRes = Inr 1,
      requestExchangeErr = None, alertExchangeErr = None, infoExchangeErr = None\<rparr>"

definition reachable_env :: run_env where
  "reachable_env =
     \<lparr>sysInfo = \<lparr>executable = (''/usr/bin/service'', None), hostname = (''host'', None),
                 currentUser = (''user'', None)\<rparr>,
      firstDial = Inr 1, secondDial = Inr 1, firstSetup = granted_setup,
      queueDeleteErr = None\<rparr>"

definition unreachable_env :: run_env where
  "unreachable_env =
     reachable_env\<lparr>firstDial := Inl ''connection refused'',
                   secondDial := Inl ''connection refused''\<rparr>"

text \<open>A broker that refuses the fresh channel of \<^verbatim>\<open>SendRequest\<close>.\<close>

definition failing_channel_env :: reply_env where
  "failing_channel_env =
     \<lparr>replyChannelRes = Inl ''channel limit reached'', replyQueueRes = Inr ''amq.gen-1'',
      replyBindErr = None, replyConsumeRes = Inr 2\<rparr>"

text \<open>A request waiting for its reply on channel 2, with a timeout of two seconds.\<close>

definition waiting0 :: replyWait where
  "waiting0 =
     \<lparr>replyChannel = 2, amqpReplyChan = 2, toSend = request0\<lparr>ReplyTo := ''amq.gen-1''\<rparr>,
      replyTimeout = 2000000000, replyChanFull = make_chan 1\<rparr>"

text \<open>A running service whose outgoing reply, alert and info channels are full.\<close>

definition full_world :: world where
  "full_world =
     upd_Sender (\<lambda>s. s\<lparr>replyChan := \<lparr>cap = 1, buf = [reply0], closed = False\<rparr>,
                        alertChan := \<lparr>cap = 1, buf = [alert0], closed = False\<rparr>,
                        infoChan := \<lparr>cap = 1, buf = [info0], closed = False\<rparr>\<rparr>)
       running_world"

text \<open>A running service with one subscription made and no stream armed yet.\<close>

definition subscribed_world :: world where
  "subscribed_world = upd_Receiver (\<lambda>r. r\<lparr>subscriptionCount := 1\<rparr>) running_world"

text \<open>A broker that refuses a new channel at the set-up.\<close>

definition refusing_setup :: setup_env where
  "refusing_setup = granted_setup\<lparr>channelRes := Inl ''channel limit reached''\<rparr>"

text \<open>A fresh service whose caller waits in \<^verbatim>\<open>StartService\<close> for the first signal.\<close>

definition starting_world :: world where
  "starting_world = fresh_world\<lparr>starter := AwaitingDone\<rparr>"

text \<open>The same, with \<^verbatim>\<open>Stop\<close> already called: \<open>True\<close> waits on the control channel.\<close>

definition stop_requested_world :: world where
  "stop_requested_world = final (Stop starting_world)"

text \<open>A running service that consumes from stream 1.\<close>

definition consuming_world :: world where
  "consuming_world =
     upd_Receiver (\<lambda>r. r\<lparr>subscriptionCount := 1, messageQueue := Some 1\<rparr>) running_world"

text \<open>
  A subscribed service whose control channel is full: five sentinels wait there for the
  router.
\<close>

definition jammed_world :: world where
  "jammed_world =
     subscribed_world\<lparr>service := (service subscribed_world)
        \<lparr>stopQueue := \<lparr>cap = 5, buf = [False, False, False, False, False], closed = False\<rparr>\<rparr>\<rparr>"

text \<open>
  A broker that grants a second channel and its queue at a re-set-up, refuses
  \<^verbatim>\<open>Consume\<close> and fails the declaration of the requests exchange.
\<close>

definition twice_failing_setup :: setup_env where
  "twice_failing_setup =
     granted_setup\<lparr>channelRes := Inr 2, consumeRes := Inl ''access refused'',
                   requestExchangeErr := Some ''exchange not allowed''\<rparr>"

text \<open>A broker that grants everything at a re-set-up, on a second channel.\<close>

definition regranted_setup :: setup_env where
  "regranted_setup = granted_setup\<lparr>channelRes := Inr 2, consumeRes := Inr 2\<rparr>"

section \<open>Properties\<close>

subsection \<open>Basic facts\<close>

lemma emit_simps [simp]:
  "trace (emit e w) = trace w @ [e]"
  "service (emit e w) = service w"
  "starter (emit e w) = starter w"
  "listeners (emit e w) = listeners w"
  "notifyClosed (emit e w) = notifyClosed w"
  by (simp_all add: emit_def)

lemma logging_simps [simp]:
  "trace (logging l m w) = trace w @ [Log l m]"
  "service (logging l m w) = service w"
  "starter (logging l m w) = starter w"
  "listeners (logging l m w) = listeners w"
  "notifyClosed (logging l m w) = notifyClosed w"
  by (simp_all add: logging_def)

lemma registerNotify_simps [simp]:
  "trace (registerNotify ch w) = trace w"
  "service (registerNotify ch w) = service w"
  "starter (registerNotify ch w) = starter w"
  "listeners (registerNotify ch w) = listeners w @ [ch]"
  "notifyClosed (registerNotify ch w) = notifyClosed w"
  by (simp_all add: registerNotify_def)

lemma closeChannel_simps [simp]:
  "trace (fst (closeChannel ch w)) = trace w @ [ChannelClose ch]"
  "service (fst (closeChannel ch w)) = service w"
  "starter (fst (closeChannel ch w)) = starter w"
  "listeners (fst (closeChannel ch w)) = removeAll ch (listeners w)"
  "notifyClosed (fst (closeChannel ch w)) = (notifyClosed w \<or> 1 \<le> count_list (listeners w) ch)"
  "snd (closeChannel ch w) = closingPanics (count_list (listeners w) ch) (notifyClosed w)"
  by (simp_all add: closeChannel_def shutdownChannel_def Let_def)

lemma closeConnection_simps [simp]:
  "trace (fst (closeConnection conn w)) = trace w @ [ConnectionClose conn]"
  "service (fst (closeConnection conn w)) = service w"
  "starter (fst (closeConnection conn w)) = starter w"
  "listeners (fst (closeConnection conn w)) = []"
  "notifyClosed (fst (closeConnection conn w)) = (notifyClosed w \<or> 1 \<le> length (listeners w))"
  "snd (closeConnection conn w) = closingPanics (length (listeners w)) (notifyClosed w)"
  by (simp_all add: closeConnection_def shutdownConnection_def Let_def)

lemma andThen_Returns_iff:
  "andThen r f = Returns b s' \<longleftrightarrow> (\<exists>a s. r = Returns a s \<and> f a s = Returns b s')"
  by (cases r) auto

lemma returned_unit: "returned r \<Longrightarrow> r = Returns () (final r)"
  by (cases r) simp_all

subsection \<open>SendRequest\<close>

text \<open>
  Claim C1 says that every failure of the reply-path set-up of \<^verbatim>\<open>SendRequest\<close> is
  returned to the caller as an error that is not \<^verbatim>\<open>nil\<close>, in particular a failure to
  open the fresh channel. The code does not do that for the channel: when
  \<^verbatim>\<open>service.connection.Channel()\<close> fails it logs, sends \<open>True\<close> on
  \<^verbatim>\<open>DoneSignal\<close> and returns without assigning \<open>e\<close>, so the caller gets
  \<^verbatim>\<open>(nil, nil)\<close>. Here is that run on a started service.
\<close>

theorem SendRequest_channel_failure_returns_nil_error:
  "result (SendRequest request0 2000000000 failing_channel_env running_world) = Some (None, None) \<and>
   trace (final (SendRequest request0 2000000000 failing_channel_env running_world)) =
     [Log DEBUG ''Submitting request to send'', ConnChannel 1,
      Log CRITICAL ''Unable to get the reply channel'', Signal True]"
  by (simp add: SendRequest_def failing_channel_env_def running_world_def ServiceDefaults_def
      signalDone_def make_chan_def chan_send_def)

text \<open>
  In general: when the fresh channel cannot be opened, no outcome of the call is a return
  with an error that is not \<^verbatim>\<open>nil\<close>.
\<close>

lemma SendRequest_channel_failure_never_an_error:
  assumes "replyChannelRes env = Inl chanErr"
  shows "SendRequest rq t env w \<noteq> Returns (r, Some e) w'"
  using assms
  by (auto simp: SendRequest_def Let_def andThen_Returns_iff split: option.splits)

text \<open>
  The three sibling failures (declaring the reply queue, binding it, consuming from it)
  do return the broker's error.
\<close>

theorem SendRequest_other_failures_return_the_error:
  assumes "connection (service w) = Some conn" and "replyChannelRes env = Inr ch"
  shows "(replyQueueRes env = Inl e \<longrightarrow>
            result (SendRequest rq t env w) = Some (None, Some e)) \<and>
         (replyQueueRes env = Inr q \<and> replyBindErr env = Some e \<longrightarrow>
            result (SendRequest rq t env w) = Some (None, Some e)) \<and>
         (replyQueueRes env = Inr q \<and> replyBindErr env = None \<and> replyConsumeRes env = Inl e \<longrightarrow>
            result (SendRequest rq t env w) = Some (None, Some e))"
  using assms by (simp add: SendRequest_def Let_def)

theorem SendRequest_other_failures_return_the_error_witness:
  "connection (service running_world) = Some 1 \<and>
   result (SendRequest request0 0
      \<lparr>replyChannelRes = Inr 2, replyQueueRes = Inl ''resource locked'', replyBindErr = None,
        replyConsumeRes = Inr 2\<rparr> running_world) = Some (None, Some ''resource locked'') \<and>
   result (SendRequest request0 0
      \<lparr>replyChannelRes = Inr 2, replyQueueRes = Inr ''amq.gen-1'',
        replyBindErr = Some ''no exchange'', replyConsumeRes = Inr 2\<rparr> running_world) =
     Some (None, Some ''no exchange'') \<and>
   result (SendRequest request0 0
      \<lparr>replyChannelRes = Inr 2, replyQueueRes = Inr ''amq.gen-1'', replyBindErr = None,
        replyConsumeRes = Inl ''access refused''\<rparr> running_world) =
     Some (None, Some ''access refused'')"
proof -
  have c: "connection (service running_world) = Some 1"
    by (simp add: running_world_def)
  from SendRequest_other_failures_return_the_error
         [OF c, where env = "\<lparr>replyChannelRes = Inr 2, replyQueueRes = Inl ''resource locked'',
            replyBindErr = None, replyConsumeRes = Inr 2\<rparr>" and ch = 2
            and e = "''resource locked''" and rq = request0 and t = 0]
       SendRequest_other_failures_return_the_error
         [OF c, where env = "\<lparr>replyChannelRes = Inr 2, replyQueueRes = Inr ''amq.gen-1'',
            replyBindErr = Some ''no exchange'', replyConsumeRes = Inr 2\<rparr>" and ch = 2
            and e = "''no exchange''" and q = "''amq.gen-1''" and rq = request0 and t = 0]
       SendRequest_other_failures_return_the_error
         [OF c, where env = "\<lparr>replyChannelRes = Inr 2, replyQueueRes = Inr ''amq.gen-1'',
            replyBindErr = None, replyConsumeRes = Inl ''access refused''\<rparr>" and ch = 2
            and e = "''access refused''" and q = "''amq.gen-1''" and rq = request0 and t = 0]
       c
  show ?thesis by simp
qed

text \<open>
  Claim C2 says that the goroutine of \<^verbatim>\<open>SendRequest\<close> closes the reply channel on
  every exit path once the call is resolved, also when the delivery cannot be decoded.
  The code returns early on a decode error (line 207), before
  \<^verbatim>\<open>replyChannel.Close()\<close>: here a delivery that does not decode arrives, the
  goroutine returns, and channel 2 is never closed.
\<close>

theorem goroutine_decode_failure_skips_close:
  "returned (SendRequest_goroutine codec0 waiting0
       \<lparr>arrival = Some (delivery0 ''garbage''), replyCloseErr = None\<rparr> running_world) \<and>
   ChannelClose 2 \<notin> set (trace (fst (final (SendRequest_goroutine codec0 waiting0
       \<lparr>arrival = Some (delivery0 ''garbage''), replyCloseErr = None\<rparr> running_world))))"
  by (simp add: SendRequest_goroutine_def waiting0_def codec0_def delivery0_def
      DecodeAndHandle_def running_world_def)

text \<open>
  In general: whatever the timeout, a delivery that does not decode is acknowledged, the
  error is logged, and the goroutine returns with nothing else done.
\<close>

lemma goroutine_decode_failure_in_general:
  assumes "arrival env = Some d" and "Decode cd d = Inl decodeErr"
  shows "SendRequest_goroutine cd rw env w =
           Returns ()
             (logging ERROR ''An error occurred while decoding a message'' (emit (Ack d False) w),
              replyChanFull rw)"
  using assms by (simp add: SendRequest_goroutine_def DecodeAndHandle_def)

text \<open>On the other two resolutions, a reply and the timeout, the channel is closed.\<close>

lemma goroutine_closes_after_reply_and_timeout:
  "ChannelClose 2 \<in> set (trace (fst (final (SendRequest_goroutine codec0 waiting0
       \<lparr>arrival = Some (delivery0 ''reply''), replyCloseErr = None\<rparr> running_world)))) \<and>
   ChannelClose 2 \<in> set (trace (fst (final (SendRequest_goroutine codec0 waiting0
       \<lparr>arrival = None, replyCloseErr = None\<rparr> running_world))))"
  by (simp add: SendRequest_goroutine_def waiting0_def codec0_def delivery0_def
      DecodeAndHandle_def running_world_def chan_send_def make_chan_def)

subsection \<open>SendReply, SendAlert and SendInfo\<close>

text \<open>
  Claim C10: whatever the message and the state, \<^verbatim>\<open>SendReply\<close>, \<^verbatim>\<open>SendAlert\<close>
  and \<^verbatim>\<open>SendInfo\<close> never return an error that is not \<^verbatim>\<open>nil\<close>. When the outgoing
  channel has room the call returns \<^verbatim>\<open>nil\<close> with the message queued last; when the
  channel is full the call blocks and returns nothing.
\<close>

theorem Send_functions_return_no_error:
  "SendReply r w \<noteq> Returns (Some e) w' \<and>
   SendAlert a w \<noteq> Returns (Some e) w' \<and>
   SendInfo i w \<noteq> Returns (Some e) w' \<and>
   (\<not> closed (replyChan (Sender (service w))) \<and>
    length (buf (replyChan (Sender (service w)))) < cap (replyChan (Sender (service w))) \<longrightarrow>
      result (SendReply r w) = Some None \<and>
      buf (replyChan (Sender (service (final (SendReply r w))))) =
        buf (replyChan (Sender (service w))) @ [r]) \<and>
   (\<not> closed (alertChan (Sender (service w))) \<and>
    length (buf (alertChan (Sender (service w)))) < cap (alertChan (Sender (service w))) \<longrightarrow>
      result (SendAlert a w) = Some None \<and>
      buf (alertChan (Sender (service (final (SendAlert a w))))) =
        buf (alertChan (Sender (service w))) @ [a]) \<and>
   (\<not> closed (infoChan (Sender (service w))) \<and>
    length (buf (infoChan (Sender (service w)))) < cap (infoChan (Sender (service w))) \<longrightarrow>
      result (SendInfo i w) = Some None \<and>
      buf (infoChan (Sender (service (final (SendInfo i w))))) =
        buf (infoChan (Sender (service w))) @ [i]) \<and>
   (\<not> closed (replyChan (Sender (service w))) \<and>
    cap (replyChan (Sender (service w))) \<le> length (buf (replyChan (Sender (service w)))) \<longrightarrow>
      SendReply r w = Parks w) \<and>
   (\<not> closed (alertChan (Sender (service w))) \<and>
    cap (alertChan (Sender (service w))) \<le> length (buf (alertChan (Sender (service w)))) \<longrightarrow>
      SendAlert a w = Parks w) \<and>
   (\<not> closed (infoChan (Sender (service w))) \<and>
    cap (infoChan (Sender (service w))) \<le> length (buf (infoChan (Sender (service w)))) \<longrightarrow>
      SendInfo i w = Parks w)"
  by (auto simp: SendReply_def SendAlert_def SendInfo_def chan_send_def upd_Sender_def)

theorem Send_functions_return_no_error_witness:
  "result (SendReply reply0 running_world) = Some None \<and>
   buf (replyChan (Sender (service (final (SendReply reply0 running_world))))) = [reply0] \<and>
   result (SendAlert alert0 running_world) = Some None \<and>
   result (SendInfo info0 running_world) = Some None \<and>
   SendReply reply0 full_world = Parks full_world \<and>
   SendAlert alert0 full_world = Parks full_world \<and>
   SendInfo info0 full_world = Parks full_world"
  using Send_functions_return_no_error [of reply0 running_world _ _ alert0 info0]
        Send_functions_return_no_error [of reply0 full_world _ _ alert0 info0]
  by (simp add: full_world_def running_world_def upd_Sender_def ServiceDefaults_def make_chan_def)

subsection \<open>The subscribe functions\<close>

text \<open>
  Claim C9: called on a service that is not connected, each of
  \<^verbatim>\<open>SubscribeToRequests\<close>, \<^verbatim>\<open>SubscribeToAlerts\<close> and \<^verbatim>\<open>SubscribeToInfos\<close>
  returns the error "Service is not connected to a broker" and leaves the world as it
  was: the trace gets no broker call (no \<^verbatim>\<open>QueueBind\<close>, no \<^verbatim>\<open>Consume\<close>), the
  subscription count keeps its value and no stream handle or sentinel is installed.
\<close>

theorem Subscribe_without_connection:
  assumes "\<not> Connected (service w)"
  shows "SubscribeToRequests k env w = Returns (Some ''Service is not connected to a broker'') w \<and>
         SubscribeToAlerts k env w = Returns (Some ''Service is not connected to a broker'') w \<and>
         SubscribeToInfos k env w = Returns (Some ''Service is not connected to a broker'') w"
  using assms
  by (simp add: SubscribeToRequests_def SubscribeToAlerts_def SubscribeToInfos_def subscribeTo_def)

theorem Subscribe_without_connection_witness:
  "\<not> Connected (service fresh_world) \<and>
   SubscribeToRequests ''q1.#'' \<lparr>bindErr = None, subConsumeRes = Inr 1\<rparr> fresh_world =
     Returns (Some ''Service is not connected to a broker'') fresh_world \<and>
   SubscribeToAlerts ''q1.#'' \<lparr>bindErr = None, subConsumeRes = Inr 1\<rparr> fresh_world =
     Returns (Some ''Service is not connected to a broker'') fresh_world \<and>
   SubscribeToInfos ''q1.#'' \<lparr>bindErr = None, subConsumeRes = Inr 1\<rparr> fresh_world =
     Returns (Some ''Service is not connected to a broker'') fresh_world"
  using Subscribe_without_connection
          [of fresh_world "''q1.#''" "\<lparr>bindErr = None, subConsumeRes = Inr 1\<rparr>"]
  by (simp add: fresh_world_def ServiceDefaults_def)

subsection \<open>Outcomes of composed steps\<close>

lemma final_andThen_Returns [simp]: "final (andThen r (\<lambda>a. Returns (g a))) = final r"
  by (cases r) simp_all

lemma returned_andThen_Returns [simp]: "returned (andThen r (\<lambda>a. Returns (g a))) = returned r"
  by (cases r) simp_all

text \<open>
  A quantity \<open>g\<close> of the world that a first step brings to \<open>v\<close> and that the steps
  after it keep at \<open>v\<close> is \<open>v\<close> at the end, wherever the composition stops.
\<close>

lemma keep_andThen:
  assumes "g (final r) = v" and "\<And>a s. g s = v \<Longrightarrow> g (final (f a s)) = v"
  shows "g (final (andThen r f)) = v"
  using assms by (cases r) auto

lemma keep_guarded:
  assumes "g (final r) = v" and "\<And>s. g s = v \<Longrightarrow> g (final (k s)) = v"
  shows "g (final (andThen r (\<lambda>goesOn s. if \<not> goesOn then Returns () s else k s))) = v"
  using assms by (cases r) auto

lemma keep_andThen_upd:
  assumes "g (final r) = v" and "\<And>s. g s = v \<Longrightarrow> g (k s) = v"
  shows "g (final (andThen r (\<lambda>a s. Returns (h a) (k s)))) = v"
  using assms by (cases r) auto

subsection \<open>Arming consumption\<close>

text \<open>
  Claim C8 says that every invocation of \<^verbatim>\<open>beginConsuming\<close> with a subscription
  count other than zero opens a delivery stream, installs it and pushes the
  \<^verbatim>\<open>false\<close> sentinel. That fails when the broker refuses \<^verbatim>\<open>Consume\<close>: with one
  subscription and a refused \<^verbatim>\<open>Consume\<close>, no stream handle is installed and the
  control channel gets no sentinel.
\<close>

theorem beginConsuming_refused_arms_nothing:
  "subscriptionCount (Receiver (service subscribed_world)) \<noteq> 0 \<and>
   \<not> armed subscribed_world (final (beginConsuming (Inl ''access refused'') subscribed_world))"
  by (simp add: subscribed_world_def running_world_def upd_Receiver_def ServiceDefaults_def
      beginConsuming_def signalDone_def chan_send_def make_chan_def armed_def)

text \<open>
  Claim C8 as amended. \<^verbatim>\<open>beginConsuming\<close> with a subscription count of zero
  returns at once and changes nothing. With another count it calls \<^verbatim>\<open>Consume\<close> on
  the queue, through the primary channel; without a primary channel that call panics.
  With a primary channel,
  \<^item> if the broker grants the stream, the step installs it as \<open>messageQueue\<close>, logs, and
    then sends \<open>False\<close> on the control channel. It returns if and only if the control
    channel is open and has room, and then \<open>False\<close> is the last value queued there. On
    a full control channel the stream is installed, nothing is queued and the step
    stays blocked in the send;
  \<^item> if the broker refuses, the step reports \<open>True\<close> on \<^verbatim>\<open>DoneSignal\<close> and leaves
    the stream handle and the control channel as they were.

  When the loop takes a \<open>False\<close> from the control channel it goes on with the next
  iteration, in a world whose \<open>messageQueue\<close> is the one installed.
\<close>

theorem beginConsuming_arms_when_granted:
  "(subscriptionCount (Receiver (service w)) = 0 \<longrightarrow> beginConsuming res w = Returns () w) \<and>
   (subscriptionCount (Receiver (service w)) \<noteq> 0 \<and> channel (service w) = None \<longrightarrow>
      beginConsuming res w = Panics w) \<and>
   (subscriptionCount (Receiver (service w)) \<noteq> 0 \<and> channel (service w) = Some ch \<and>
    res = Inr mq \<longrightarrow>
      trace (final (beginConsuming res w)) =
        trace w @ [Consume ch (QueueName (Receiver (service w))) [] False True True False,
                   Log DEBUG ''Started consuming on queue''] \<and>
      messageQueue (Receiver (service (final (beginConsuming res w)))) = Some mq \<and>
      returned (beginConsuming res w) =
        (\<not> closed (stopQueue (service w)) \<and>
         length (buf (stopQueue (service w))) < cap (stopQueue (service w))) \<and>
      (\<not> closed (stopQueue (service w)) \<and>
       length (buf (stopQueue (service w))) < cap (stopQueue (service w)) \<longrightarrow>
         buf (stopQueue (service (final (beginConsuming res w)))) =
           buf (stopQueue (service w)) @ [False]) \<and>
      (\<not> closed (stopQueue (service w)) \<and>
       cap (stopQueue (service w)) \<le> length (buf (stopQueue (service w))) \<longrightarrow>
         parked (beginConsuming res w) \<and>
         stopQueue (service (final (beginConsuming res w))) = stopQueue (service w))) \<and>
   (subscriptionCount (Receiver (service w)) \<noteq> 0 \<and> channel (service w) = Some ch \<and>
    res = Inl e \<longrightarrow>
      beginConsuming res w =
        signalDone True
          (logging CRITICAL ''Unable start consuming from queue''
             (emit (Consume ch (QueueName (Receiver (service w))) [] False True True False) w)) \<and>
      messageQueue (Receiver (service (final (beginConsuming res w)))) =
        messageQueue (Receiver (service w)) \<and>
      stopQueue (service (final (beginConsuming res w))) = stopQueue (service w)) \<and>
   (buf (stopQueue (service w)) = False # bs \<longrightarrow>
      amqpLoop conn cd (SelStopQueue # evs) w =
        amqpLoop conn cd evs
          (logging DEBUG ''Received on the stop queue, but it was not true''
             (w\<lparr>service := (service w)\<lparr>stopQueue := (stopQueue (service w))\<lparr>buf := bs\<rparr>\<rparr>\<rparr>)))"
  by (auto simp: beginConsuming_def chan_send_def upd_Receiver_def signalDone_def chan_recv_def
      Let_def)

theorem beginConsuming_arms_when_granted_witness:
  "beginConsuming (Inr 7) running_world = Returns () running_world \<and>
   panicked (beginConsuming (Inr 7) (upd_Receiver (\<lambda>r. r\<lparr>subscriptionCount := 1\<rparr>) fresh_world)) \<and>
   returned (beginConsuming (Inr 7) subscribed_world) \<and>
   messageQueue (Receiver (service (final (beginConsuming (Inr 7) subscribed_world)))) = Some 7 \<and>
   buf (stopQueue (service (final (beginConsuming (Inr 7) subscribed_world)))) = [False] \<and>
   parked (beginConsuming (Inr 7) jammed_world) \<and>
   messageQueue (Receiver (service (final (beginConsuming (Inr 7) jammed_world)))) = Some 7 \<and>
   stopQueue (service (final (beginConsuming (Inr 7) jammed_world))) =
     stopQueue (service jammed_world) \<and>
   stopQueue (service (final (beginConsuming (Inl ''access refused'') subscribed_world))) =
     stopQueue (service subscribed_world) \<and>
   amqpLoop 1 codec0 [SelStopQueue] (final (beginConsuming (Inr 7) subscribed_world)) =
     amqpLoop 1 codec0 []
       (logging DEBUG ''Received on the stop queue, but it was not true''
          ((final (beginConsuming (Inr 7) subscribed_world))
             \<lparr>service := (service (final (beginConsuming (Inr 7) subscribed_world)))
                \<lparr>stopQueue := (stopQueue (service (final (beginConsuming (Inr 7) subscribed_world))))
                   \<lparr>buf := []\<rparr>\<rparr>\<rparr>))"
proof -
  let ?unconnected = "upd_Receiver (\<lambda>r. r\<lparr>subscriptionCount := 1\<rparr>) fresh_world"
  have zero: "subscriptionCount (Receiver (service running_world)) = 0"
    by (simp add: running_world_def ServiceDefaults_def)
  have nil: "subscriptionCount (Receiver (service ?unconnected)) \<noteq> 0"
    "channel (service ?unconnected) = None"
    by (simp_all add: fresh_world_def upd_Receiver_def ServiceDefaults_def)
  have one: "subscriptionCount (Receiver (service subscribed_world)) \<noteq> 0"
    and ch: "channel (service subscribed_world) = Some 1"
    and room: "\<not> closed (stopQueue (service subscribed_world))"
      "length (buf (stopQueue (service subscribed_world))) < cap (stopQueue (service subscribed_world))"
    and empty: "buf (stopQueue (service subscribed_world)) = []"
    by (simp_all add: subscribed_world_def running_world_def upd_Receiver_def ServiceDefaults_def
        make_chan_def)
  have jone: "subscriptionCount (Receiver (service jammed_world)) \<noteq> 0"
    and jch: "channel (service jammed_world) = Some 1"
    and jfull: "\<not> closed (stopQueue (service jammed_world))"
      "cap (stopQueue (service jammed_world)) \<le> length (buf (stopQueue (service jammed_world)))"
    by (simp_all add: jammed_world_def subscribed_world_def running_world_def upd_Receiver_def
        ServiceDefaults_def)
  note granted = beginConsuming_arms_when_granted
      [where w = subscribed_world and res = "Inr 7" and ch = 1 and mq = 7,
       THEN conjunct2, THEN conjunct2, THEN conjunct1, THEN mp, OF conjI [OF one conjI [OF ch refl]]]
  note jammed = beginConsuming_arms_when_granted
      [where w = jammed_world and res = "Inr 7" and ch = 1 and mq = 7,
       THEN conjunct2, THEN conjunct2, THEN conjunct1, THEN mp, OF conjI [OF jone conjI [OF jch refl]]]
  from granted room empty
  have sentinel: "buf (stopQueue (service (final (beginConsuming (Inr 7) subscribed_world)))) =
      [False]"
    by simp
  from beginConsuming_arms_when_granted
      [where w = "final (beginConsuming (Inr 7) subscribed_world)" and bs = "[]"
         and conn = 1 and cd = codec0 and evs = "[]"]
    sentinel
  have loop: "amqpLoop 1 codec0 [SelStopQueue] (final (beginConsuming (Inr 7) subscribed_world)) =
     amqpLoop 1 codec0 []
       (logging DEBUG ''Received on the stop queue, but it was not true''
          ((final (beginConsuming (Inr 7) subscribed_world))
             \<lparr>service := (service (final (beginConsuming (Inr 7) subscribed_world)))
                \<lparr>stopQueue := (stopQueue (service (final (beginConsuming (Inr 7) subscribed_world))))
                   \<lparr>buf := []\<rparr>\<rparr>\<rparr>))"
    by blast
  from beginConsuming_arms_when_granted [where w = running_world and res = "Inr 7"] zero
  have noop: "beginConsuming (Inr 7) running_world = Returns () running_world"
    by blast
  from beginConsuming_arms_when_granted [where w = ?unconnected and res = "Inr 7"] nil
  have "beginConsuming (Inr 7) ?unconnected = Panics ?unconnected"
    by blast
  then have unconnected: "panicked (beginConsuming (Inr 7) ?unconnected)"
    by simp
  from beginConsuming_arms_when_granted
      [where w = subscribed_world and res = "Inl ''access refused''" and ch = 1
         and e = "''access refused''"] one ch
  have refused: "stopQueue (service (final (beginConsuming (Inl ''access refused'') subscribed_world))) =
     stopQueue (service subscribed_world)"
    by blast
  from granted room
  have armed: "returned (beginConsuming (Inr 7) subscribed_world)"
    "messageQueue (Receiver (service (final (beginConsuming (Inr 7) subscribed_world)))) = Some 7"
    by blast+
  from jammed jfull
  have blocked: "parked (beginConsuming (Inr 7) jammed_world)"
    "messageQueue (Receiver (service (final (beginConsuming (Inr 7) jammed_world)))) = Some 7"
    "stopQueue (service (final (beginConsuming (Inr 7) jammed_world))) =
       stopQueue (service jammed_world)"
    by blast+
  from noop unconnected armed sentinel blocked refused loop show ?thesis by blast
qed

subsection \<open>Stopping\<close>

text \<open>
  \<^verbatim>\<open>Stop\<close> sends \<open>True\<close> on the control channel (given room there), and the loop
  is left when it takes a \<open>True\<close> from the control channel, the rest of the schedule
  unserviced.
\<close>

theorem Stop_request_leaves_loop:
  "(\<not> closed (stopQueue (service w)) \<and>
    length (buf (stopQueue (service w))) < cap (stopQueue (service w)) \<longrightarrow>
      result (Stop w) = Some () \<and>
      buf (stopQueue (service (final (Stop w)))) = buf (stopQueue (service w)) @ [True]) \<and>
   (buf (stopQueue (service w)) = True # bs \<longrightarrow>
      amqpLoop conn cd (SelStopQueue # evs) w =
        Returns ()
          (logging INFO ''AMQP service stopping on interrupt.''
             (w\<lparr>service := (service w)\<lparr>stopQueue := (stopQueue (service w))\<lparr>buf := bs\<rparr>\<rparr>\<rparr>)))"
  by (auto simp: Stop_def chan_send_def chan_recv_def Let_def)

theorem Stop_request_leaves_loop_witness:
  "result (Stop running_world) = Some () \<and>
   buf (stopQueue (service (final (Stop running_world)))) = [True] \<and>
   returned (amqpLoop 1 codec0 [SelStopQueue, SelStopQueue] (final (Stop running_world)))"
proof -
  have r: "\<not> closed (stopQueue (service running_world))"
    "length (buf (stopQueue (service running_world))) < cap (stopQueue (service running_world))"
    "buf (stopQueue (service running_world)) = []"
    by (simp_all add: running_world_def ServiceDefaults_def make_chan_def)
  from Stop_request_leaves_loop [where w = running_world] r
  have s: "result (Stop running_world) = Some ()"
    "buf (stopQueue (service (final (Stop running_world)))) = [True]"
    by simp_all
  from Stop_request_leaves_loop
         [where w = "final (Stop running_world)" and bs = "[]" and conn = 1 and cd = codec0
            and evs = "[SelStopQueue]"] s
  have "returned (amqpLoop 1 codec0 [SelStopQueue, SelStopQueue] (final (Stop running_world)))"
    by simp
  with s show ?thesis by simp
qed

subsection \<open>A cancelled channel\<close>

lemma signalDone_opens [simp]:
  "count_list (trace (final (signalDone v w))) (ConnChannel c) =
     count_list (trace w) (ConnChannel c)"
  by (simp add: signalDone_def chan_send_def Let_def)

lemma beginConsuming_opens [simp]:
  "count_list (trace (final (beginConsuming res w))) (ConnChannel c) =
     count_list (trace w) (ConnChannel c)"
  by (simp add: beginConsuming_def chan_send_def Let_def upd_Receiver_def
      split: option.splits sum.splits)

lemma declareExchange_opens [simp]:
  "count_list (trace (final (declareExchange ch n err f r w))) (ConnChannel c) =
     count_list (trace w) (ConnChannel c)"
  by (simp add: declareExchange_def Let_def split: option.splits)

text \<open>One run of the set-up closure asks the connection for one channel.\<close>

lemma channelSetupFunc_opens:
  "count_list (trace (final (channelSetupFunc conn env w))) (ConnChannel conn) =
     Suc (count_list (trace w) (ConnChannel conn))"
proof (cases "channelRes env")
  case (Inl e)
  then show ?thesis by (simp add: channelSetupFunc_def)
next
  case (Inr ch)
  let ?g = "\<lambda>s. count_list (trace s) (ConnChannel conn)"
  let ?v = "Suc (count_list (trace w) (ConnChannel conn))"
  show ?thesis
    unfolding channelSetupFunc_def Let_def Inr sum.case
  proof (intro keep_guarded [where g = ?g and v = ?v], goal_cases)
    case 1
    show ?case
    proof (cases "queueDeclareErr env")
      case None
      have "?g (final (andThen
               (beginConsuming (consumeRes env)
                 (logging DEBUG ''Queue declared''
                   (emit (QueueDeclare ch (QueueName (Receiver (service w))) False True True False)
                     (logging DEBUG ''Channel with AMQP broker established''
                       (emit (ConnChannel conn) w)
                      \<lparr>service := service w\<lparr>channel := Some ch\<rparr>\<rparr>))))
               (\<lambda>_ w5. Returns True
                    (logging INFO ''AMQP service ready to receive messages'' w5)))) = ?v"
        by (rule keep_andThen_upd [where g = ?g and v = ?v]) simp_all
      with None show ?thesis by simp
    next
      case (Some e)
      then show ?thesis by simp
    qed
  qed simp_all
qed

text \<open>
  Claim C4 says that when the channel-cancel feed delivers a value the router runs the
  set-up once more and then exits the loop, whether that set-up succeeded or not. It
  does not exit when the set-up does not return. Here a service with one subscription
  is running, the caller of \<^verbatim>\<open>StartService\<close> has taken the start signal and nobody
  reads \<^verbatim>\<open>DoneSignal\<close> any more; at the re-set-up the broker refuses \<^verbatim>\<open>Consume\<close>
  and fails the declaration of the requests exchange. The first failure report fills
  \<^verbatim>\<open>DoneSignal\<close>, whose capacity is one, and the router stays blocked in the send of
  the second inside the set-up: the loop is never left.
\<close>

theorem channel_cancel_blocks_in_failing_setup:
  "\<not> returned (amqpLoop 1 codec0
        [SelChannelCancel (Fires ''ctag-1'') twice_failing_setup] subscribed_world) \<and>
   trace (final (amqpLoop 1 codec0
        [SelChannelCancel (Fires ''ctag-1'') twice_failing_setup] subscribed_world)) =
     [Log WARNING ''AMQP channel was canceled'',
      Log INFO ''Attempting to re-open the channel'',
      ConnChannel 1,
      Log DEBUG ''Channel with AMQP broker established'',
      QueueDeclare 2 ''my_queue'' False True True False,
      Log DEBUG ''Queue declared'',
      Consume 2 ''my_queue'' [] False True True False,
      Log CRITICAL ''Unable start consuming from queue'',
      Signal True,
      Log INFO ''AMQP service ready to receive messages'',
      ExchangeDeclare 2 ''requests'' ''topic'' False False False False,
      Log CRITICAL ''Unable to declare the requests exchange'']"
  by (simp add: twice_failing_setup_def granted_setup_def subscribed_world_def
      running_world_def upd_Receiver_def ServiceDefaults_def make_chan_def
      channelSetupFunc_def beginConsuming_def declareExchange_def signalDone_def
      chan_send_def Let_def)

lemma signalDone_accepts:
  assumes "starter w' = starter w" and "DoneSignal (service w') = DoneSignal (service w)"
  shows "returned (signalDone v w') = returned (signalDone v w)"
  using assms by (simp add: signalDone_def chan_send_def Let_def)

text \<open>A set-up that the broker refuses the channel of ends with the failure report.\<close>

lemma channelSetupFunc_refused:
  assumes "channelRes env = Inl e"
  shows "returned (channelSetupFunc conn env w) = returned (signalDone True w)"
  using assms
    signalDone_accepts
      [of "logging CRITICAL ''Unable to get the AMQP channel'' (emit (ConnChannel conn) w)" w True]
  by (simp add: channelSetupFunc_def)

text \<open>
  With no error from the broker an exchange block goes on, and the arming step returns
  unless it blocks in the send of the sentinel: so does a set-up that the broker grants
  everything of.
\<close>

lemma declareExchange_granted:
  "declareExchange ch n None f r w =
     Returns True (if n = [] then w
                   else logging DEBUG r
                          (emit (ExchangeDeclare ch n ''topic'' False False False False) w))"
  by (simp add: declareExchange_def)

lemma returned_andThen_total:
  assumes "\<And>a s. returned (k a s)"
  shows "returned (andThen r k) = returned r"
  using assms by (cases r) simp_all

lemma beginConsuming_granted:
  assumes "channel (service w) = Some ch"
  shows "returned (beginConsuming (Inr mq) w) =
           (subscriptionCount (Receiver (service w)) = 0 \<or>
            \<not> closed (stopQueue (service w)) \<and>
            length (buf (stopQueue (service w))) < cap (stopQueue (service w)))"
  using assms by (simp add: beginConsuming_def chan_send_def Let_def upd_Receiver_def)

lemma channelSetupFunc_granted:
  assumes "channelRes env = Inr ch" and "queueDeclareErr env = None"
    and "consumeRes env = Inr mq" and "requestExchangeErr env = None"
    and "alertExchangeErr env = None" and "infoExchangeErr env = None"
  shows "returned (channelSetupFunc conn env w) =
           (QueueName (Receiver (service w)) = [] \<or>
            subscriptionCount (Receiver (service w)) = 0 \<or>
            \<not> closed (stopQueue (service w)) \<and>
            length (buf (stopQueue (service w))) < cap (stopQueue (service w)))"
  unfolding channelSetupFunc_def Let_def assms sum.case option.case
  apply (subst returned_andThen_total)
  subgoal for goesOn s
    by (cases goesOn) (simp_all add: declareExchange_granted split del: if_split)
  by (simp add: returned_andThen_total beginConsuming_granted)

text \<open>
  Claim C4 as amended: when the channel-cancel feed delivers a value, the loop runs the
  set-up closure once (one more channel is asked of the connection) and never goes on
  with another iteration: the rest of the schedule is never serviced. The loop is left
  (\<^verbatim>\<open>break amqpLoop\<close>) if and only if the closure returns, having succeeded or having
  reported a failure; while the closure is blocked in a send, the router is blocked
  there. The closure returns
  \<^item> when the broker refuses the new channel, if and only if \<^verbatim>\<open>DoneSignal\<close> takes
    the failure report;
  \<^item> when the broker grants everything, if and only if the queue has no name, or nothing
    is subscribed, or the control channel is open and has room for the sentinel.
\<close>

theorem channel_cancel_sets_up_once_and_leaves_loop:
  "amqpLoop conn cd (SelChannelCancel (Fires tag) env # rest) w =
     andThen
       (channelSetupFunc conn env
          (logging INFO ''Attempting to re-open the channel''
             (logging WARNING ''AMQP channel was canceled'' w)))
       (\<lambda>_. Returns ()) \<and>
   amqpSelect conn cd (SelChannelCancel (Fires tag) env) w \<noteq> Returns Continue w' \<and>
   count_list (trace (final (amqpLoop conn cd (SelChannelCancel (Fires tag) env # rest) w)))
       (ConnChannel conn) = count_list (trace w) (ConnChannel conn) + 1 \<and>
   returned (amqpLoop conn cd (SelChannelCancel (Fires tag) env # rest) w) =
     returned (channelSetupFunc conn env
          (logging INFO ''Attempting to re-open the channel''
             (logging WARNING ''AMQP channel was canceled'' w))) \<and>
   (channelRes env = Inl e \<longrightarrow>
      returned (amqpLoop conn cd (SelChannelCancel (Fires tag) env # rest) w) =
        returned (signalDone True w)) \<and>
   (channelRes env = Inr ch \<and> queueDeclareErr env = None \<and> consumeRes env = Inr mq \<and>
    requestExchangeErr env = None \<and> alertExchangeErr env = None \<and>
    infoExchangeErr env = None \<longrightarrow>
      returned (amqpLoop conn cd (SelChannelCancel (Fires tag) env # rest) w) =
        (QueueName (Receiver (service w)) = [] \<or>
         subscriptionCount (Receiver (service w)) = 0 \<or>
         \<not> closed (stopQueue (service w)) \<and>
         length (buf (stopQueue (service w))) < cap (stopQueue (service w))))"
proof -
  let ?w1 = "logging INFO ''Attempting to re-open the channel''
               (logging WARNING ''AMQP channel was canceled'' w)"
  have loop: "amqpLoop conn cd (SelChannelCancel (Fires tag) env # rest) w =
      andThen (channelSetupFunc conn env ?w1) (\<lambda>_. Returns ())"
    by (cases "channelSetupFunc conn env ?w1") simp_all
  have never: "amqpSelect conn cd (SelChannelCancel (Fires tag) env) w \<noteq> Returns Continue w'"
    by (cases "channelSetupFunc conn env ?w1") simp_all
  have once: "count_list (trace (final (andThen (channelSetupFunc conn env ?w1) (\<lambda>_. Returns ()))))
       (ConnChannel conn) = count_list (trace w) (ConnChannel conn) + 1"
    using channelSetupFunc_opens [of conn env ?w1] by simp
  have leaves: "returned (andThen (channelSetupFunc conn env ?w1) (\<lambda>_. Returns ())) =
      returned (channelSetupFunc conn env ?w1)"
    by simp
  have refused: "channelRes env = Inl e \<longrightarrow>
      returned (channelSetupFunc conn env ?w1) = returned (signalDone True w)"
  proof
    assume "channelRes env = Inl e"
    then have "returned (channelSetupFunc conn env ?w1) = returned (signalDone True ?w1)"
      by (rule channelSetupFunc_refused)
    also have "\<dots> = returned (signalDone True w)"
      by (rule signalDone_accepts) simp_all
    finally show "returned (channelSetupFunc conn env ?w1) = returned (signalDone True w)" .
  qed
  have granted: "channelRes env = Inr ch \<and> queueDeclareErr env = None \<and>
    consumeRes env = Inr mq \<and> requestExchangeErr env = None \<and> alertExchangeErr env = None \<and>
    infoExchangeErr env = None \<longrightarrow>
      returned (channelSetupFunc conn env ?w1) =
        (QueueName (Receiver (service w)) = [] \<or>
         subscriptionCount (Receiver (service w)) = 0 \<or>
         \<not> closed (stopQueue (service w)) \<and>
         length (buf (stopQueue (service w))) < cap (stopQueue (service w)))"
    using channelSetupFunc_granted [of env ch mq conn ?w1] by simp
  from never once refused granted show ?thesis
    unfolding loop leaves by (intro conjI) (assumption | rule refl)+
qed

theorem channel_cancel_sets_up_once_and_leaves_loop_witness:
  "returned (amqpLoop 1 codec0
      [SelChannelCancel (Fires ''ctag-1'') granted_setup, SelStopQueue] subscribed_world) \<and>
   returned (amqpLoop 1 codec0
      [SelChannelCancel (Fires ''ctag-1'') refusing_setup, SelStopQueue] subscribed_world) \<and>
   \<not> returned (amqpLoop 1 codec0
      [SelChannelCancel (Fires ''ctag-1'') regranted_setup, SelStopQueue] jammed_world)"
proof -
  have g: "channelRes granted_setup = Inr 1 \<and> queueDeclareErr granted_setup = None \<and>
      consumeRes granted_setup = Inr 1 \<and> requestExchangeErr granted_setup = None \<and>
      alertExchangeErr granted_setup = None \<and> infoExchangeErr granted_setup = None"
    by (simp add: granted_setup_def)
  have g2: "channelRes regranted_setup = Inr 2 \<and> queueDeclareErr regranted_setup = None \<and>
      consumeRes regranted_setup = Inr 2 \<and> requestExchangeErr regranted_setup = None \<and>
      alertExchangeErr regranted_setup = None \<and> infoExchangeErr regranted_setup = None"
    by (simp add: regranted_setup_def granted_setup_def)
  have r: "channelRes refusing_setup = Inl ''channel limit reached''"
    by (simp add: refusing_setup_def granted_setup_def)
  have room: "\<not> closed (stopQueue (service subscribed_world)) \<and>
      length (buf (stopQueue (service subscribed_world))) < cap (stopQueue (service subscribed_world))"
    by (simp add: subscribed_world_def running_world_def upd_Receiver_def ServiceDefaults_def
        make_chan_def)
  have full: "\<not> (QueueName (Receiver (service jammed_world)) = [] \<or>
      subscriptionCount (Receiver (service jammed_world)) = 0 \<or>
      \<not> closed (stopQueue (service jammed_world)) \<and>
      length (buf (stopQueue (service jammed_world))) < cap (stopQueue (service jammed_world)))"
    by (simp add: jammed_world_def subscribed_world_def running_world_def upd_Receiver_def
        ServiceDefaults_def)
  have accepted: "returned (signalDone True subscribed_world)"
    by (simp add: signalDone_def subscribed_world_def running_world_def upd_Receiver_def
        ServiceDefaults_def make_chan_def chan_send_def)
  note at_granted = channel_cancel_sets_up_once_and_leaves_loop
      [of 1 codec0 "''ctag-1''" granted_setup "[SelStopQueue]" subscribed_world _ _ 1 1,
       THEN conjunct2, THEN conjunct2, THEN conjunct2, THEN conjunct2, THEN conjunct2,
       THEN mp, OF g]
  note at_regranted = channel_cancel_sets_up_once_and_leaves_loop
      [of 1 codec0 "''ctag-1''" regranted_setup "[SelStopQueue]" jammed_world _ _ 2 2,
       THEN conjunct2, THEN conjunct2, THEN conjunct2, THEN conjunct2, THEN conjunct2,
       THEN mp, OF g2]
  note at_refused = channel_cancel_sets_up_once_and_leaves_loop
      [of 1 codec0 "''ctag-1''" refusing_setup "[SelStopQueue]" subscribed_world _
          "''channel limit reached''",
       THEN conjunct2, THEN conjunct2, THEN conjunct2, THEN conjunct2, THEN conjunct1,
       THEN mp, OF r]
  from at_granted room
  have a: "returned (amqpLoop 1 codec0
      [SelChannelCancel (Fires ''ctag-1'') granted_setup, SelStopQueue] subscribed_world)"
    by blast
  from at_refused accepted
  have b: "returned (amqpLoop 1 codec0
      [SelChannelCancel (Fires ''ctag-1'') refusing_setup, SelStopQueue] subscribed_world)"
    by blast
  from at_regranted full
  have c: "\<not> returned (amqpLoop 1 codec0
      [SelChannelCancel (Fires ''ctag-1'') regranted_setup, SelStopQueue] jammed_world)"
    by blast
  from a b c show ?thesis by blast
qed

subsection \<open>Inbound deliveries\<close>

text \<open>
  Claim C7: for a delivery received on the inbound stream, the iteration of the loop
  first acknowledges it, and that is the only acknowledgement, whatever the decoding
  gives. Then exactly one thing happens, by the decoded kind: a Request is sent on the
  inbound Request channel, an Alert on the Alert channel, an Info on the Info channel
  (the message is queued last when the channel has room, and the loop waits at that
  send when it is full); a Reply is logged as an error and dropped; a delivery that does
  not decode is logged and dropped, the service staying as it was. The loop is never
  left on a delivery.
\<close>

theorem inbound_delivery_acked_once_then_dispatched:
  assumes "messageQueue (Receiver (service w)) = Some mq"
  shows
   "(Decode cd d = Inl err \<longrightarrow>
       amqpSelect conn cd (SelMessageQueue (Fires d)) w =
         Returns Continue
           (logging ERROR ''An error occurred while decoding a message'' (emit (Ack d False) w))) \<and>
    (Decode cd d = Inr (IsRequest rq) \<longrightarrow>
       amqpSelect conn cd (SelMessageQueue (Fires d)) w =
         andThen
           (sending (chan_send (RequestChan (Receiver (service w))) rq)
              (\<lambda>c. upd_Receiver (\<lambda>r. r\<lparr>RequestChan := c\<rparr>) (emit (Ack d False) w))
              (emit (Ack d False) w))
           (\<lambda>_. Returns Continue)) \<and>
    (Decode cd d = Inr (IsReply rp) \<longrightarrow>
       amqpSelect conn cd (SelMessageQueue (Fires d)) w =
         Returns Continue
           (logging ERROR ''Received an unexpected reply'' (emit (Ack d False) w))) \<and>
    (Decode cd d = Inr (IsAlert al) \<longrightarrow>
       amqpSelect conn cd (SelMessageQueue (Fires d)) w =
         andThen
           (sending (chan_send (AlertChan (Receiver (service w))) al)
              (\<lambda>c. upd_Receiver (\<lambda>r. r\<lparr>AlertChan := c\<rparr>) (emit (Ack d False) w))
              (emit (Ack d False) w))
           (\<lambda>_. Returns Continue)) \<and>
    (Decode cd d = Inr (IsInfo nf) \<longrightarrow>
       amqpSelect conn cd (SelMessageQueue (Fires d)) w =
         andThen
           (sending (chan_send (InfoChan (Receiver (service w))) nf)
              (\<lambda>c. upd_Receiver (\<lambda>r. r\<lparr>InfoChan := c\<rparr>) (emit (Ack d False) w))
              (emit (Ack d False) w))
           (\<lambda>_. Returns Continue)) \<and>
    (\<exists>logs. trace (final (amqpSelect conn cd (SelMessageQueue (Fires d)) w)) =
              trace w @ Ack d False # logs \<and> Ack d False \<notin> set logs) \<and>
    amqpSelect conn cd (SelMessageQueue (Fires d)) w \<noteq> Returns Break w'"
proof -
  have ack: "\<exists>logs. trace (final (amqpSelect conn cd (SelMessageQueue (Fires d)) w)) =
              trace w @ Ack d False # logs \<and> Ack d False \<notin> set logs"
    using assms
    by (auto simp: DecodeAndHandle_def chan_send_def upd_Receiver_def
        split: sum.splits decoded.splits)
  have nobreak: "amqpSelect conn cd (SelMessageQueue (Fires d)) w \<noteq> Returns Break w'"
    using assms
    by (auto simp: DecodeAndHandle_def chan_send_def upd_Receiver_def
        split: sum.splits decoded.splits)
  have dec: "Decode cd d = Inl err \<Longrightarrow>
       amqpSelect conn cd (SelMessageQueue (Fires d)) w =
         Returns Continue
           (logging ERROR ''An error occurred while decoding a message'' (emit (Ack d False) w))"
    using assms by (simp add: DecodeAndHandle_def)
  have req: "Decode cd d = Inr (IsRequest rq) \<Longrightarrow>
       amqpSelect conn cd (SelMessageQueue (Fires d)) w =
         andThen
           (sending (chan_send (RequestChan (Receiver (service w))) rq)
              (\<lambda>c. upd_Receiver (\<lambda>r. r\<lparr>RequestChan := c\<rparr>) (emit (Ack d False) w))
              (emit (Ack d False) w))
           (\<lambda>_. Returns Continue)"
    using assms
    by (cases "chan_send (RequestChan (Receiver (service w))) rq")
       (simp_all add: DecodeAndHandle_def)
  have rep: "Decode cd d = Inr (IsReply rp) \<Longrightarrow>
       amqpSelect conn cd (SelMessageQueue (Fires d)) w =
         Returns Continue
           (logging ERROR ''Received an unexpected reply'' (emit (Ack d False) w))"
    using assms by (simp add: DecodeAndHandle_def)
  have alr: "Decode cd d = Inr (IsAlert al) \<Longrightarrow>
       amqpSelect conn cd (SelMessageQueue (Fires d)) w =
         andThen
           (sending (chan_send (AlertChan (Receiver (service w))) al)
              (\<lambda>c. upd_Receiver (\<lambda>r. r\<lparr>AlertChan := c\<rparr>) (emit (Ack d False) w))
              (emit (Ack d False) w))
           (\<lambda>_. Returns Continue)"
    using assms
    by (cases "chan_send (AlertChan (Receiver (service w))) al")
       (simp_all add: DecodeAndHandle_def)
  have inf: "Decode cd d = Inr (IsInfo nf) \<Longrightarrow>
       amqpSelect conn cd (SelMessageQueue (Fires d)) w =
         andThen
           (sending (chan_send (InfoChan (Receiver (service w))) nf)
              (\<lambda>c. upd_Receiver (\<lambda>r. r\<lparr>InfoChan := c\<rparr>) (emit (Ack d False) w))
              (emit (Ack d False) w))
           (\<lambda>_. Returns Continue)"
    using assms
    by (cases "chan_send (InfoChan (Receiver (service w))) nf")
       (simp_all add: DecodeAndHandle_def)
  show ?thesis
    by (intro conjI impI) (fact ack nobreak | erule dec req rep alr inf)+
qed

theorem inbound_delivery_acked_once_then_dispatched_witness:
  "messageQueue (Receiver (service consuming_world)) = Some 1 \<and>
   amqpSelect 1 codec0 (SelMessageQueue (Fires (delivery0 ''garbage''))) consuming_world =
     Returns Continue
       (logging ERROR ''An error occurred while decoding a message''
          (emit (Ack (delivery0 ''garbage'') False) consuming_world)) \<and>
   amqpSelect 1 codec0 (SelMessageQueue (Fires (delivery0 ''reply''))) consuming_world =
     Returns Continue
       (logging ERROR ''Received an unexpected reply''
          (emit (Ack (delivery0 ''reply'') False) consuming_world)) \<and>
   result (amqpSelect 1 codec0 (SelMessageQueue (Fires (delivery0 ''request''))) consuming_world) =
     Some Continue \<and>
   buf (RequestChan (Receiver (service (final
     (amqpSelect 1 codec0 (SelMessageQueue (Fires (delivery0 ''request''))) consuming_world))))) =
     [request0] \<and>
   trace (final
     (amqpSelect 1 codec0 (SelMessageQueue (Fires (delivery0 ''request''))) consuming_world)) =
     [Ack (delivery0 ''request'') False] \<and>
   buf (AlertChan (Receiver (service (final
     (amqpSelect 1 codec0 (SelMessageQueue (Fires (delivery0 ''alert''))) consuming_world))))) =
     [alert0] \<and>
   buf (InfoChan (Receiver (service (final
     (amqpSelect 1 codec0 (SelMessageQueue (Fires (delivery0 ''info''))) consuming_world))))) =
     [info0]"
proof -
  have mq: "messageQueue (Receiver (service consuming_world)) = Some 1"
    by (simp add: consuming_world_def upd_Receiver_def)
  have g: "Decode codec0 (delivery0 ''garbage'') = Inl ''unknown message type''"
    and p: "Decode codec0 (delivery0 ''reply'') = Inr (IsReply reply0)"
    and q: "Decode codec0 (delivery0 ''request'') = Inr (IsRequest request0)"
    and a: "Decode codec0 (delivery0 ''alert'') = Inr (IsAlert alert0)"
    and i: "Decode codec0 (delivery0 ''info'') = Inr (IsInfo info0)"
    by (simp_all add: codec0_def delivery0_def)
  have room: "chan_send (RequestChan (Receiver (service consuming_world))) request0 =
      Sent \<lparr>cap = 100, buf = [request0], closed = False\<rparr>"
    "chan_send (AlertChan (Receiver (service consuming_world))) alert0 =
      Sent \<lparr>cap = 100, buf = [alert0], closed = False\<rparr>"
    "chan_send (InfoChan (Receiver (service consuming_world))) info0 =
      Sent \<lparr>cap = 100, buf = [info0], closed = False\<rparr>"
    by (simp_all add: consuming_world_def running_world_def upd_Receiver_def ServiceDefaults_def
        make_chan_def chan_send_def)
  have tr: "trace consuming_world = []"
    by (simp add: consuming_world_def running_world_def upd_Receiver_def)
  note at = inbound_delivery_acked_once_then_dispatched [OF mq, where cd = codec0 and conn = 1]
  have f1: "amqpSelect 1 codec0 (SelMessageQueue (Fires (delivery0 ''garbage''))) consuming_world =
     Returns Continue
       (logging ERROR ''An error occurred while decoding a message''
          (emit (Ack (delivery0 ''garbage'') False) consuming_world))"
    by (rule at [THEN conjunct1, THEN mp, OF g])
  have f2: "amqpSelect 1 codec0 (SelMessageQueue (Fires (delivery0 ''reply''))) consuming_world =
     Returns Continue
       (logging ERROR ''Received an unexpected reply''
          (emit (Ack (delivery0 ''reply'') False) consuming_world))"
    by (rule at [THEN conjunct2, THEN conjunct2, THEN conjunct1, THEN mp, OF p])
  have f3: "amqpSelect 1 codec0 (SelMessageQueue (Fires (delivery0 ''request''))) consuming_world =
         andThen
           (sending (chan_send (RequestChan (Receiver (service consuming_world))) request0)
              (\<lambda>c. upd_Receiver (\<lambda>r. r\<lparr>RequestChan := c\<rparr>)
                     (emit (Ack (delivery0 ''request'') False) consuming_world))
              (emit (Ack (delivery0 ''request'') False) consuming_world))
           (\<lambda>_. Returns Continue)"
    by (rule at [THEN conjunct2, THEN conjunct1, THEN mp, OF q])
  have f4: "amqpSelect 1 codec0 (SelMessageQueue (Fires (delivery0 ''alert''))) consuming_world =
         andThen
           (sending (chan_send (AlertChan (Receiver (service consuming_world))) alert0)
              (\<lambda>c. upd_Receiver (\<lambda>r. r\<lparr>AlertChan := c\<rparr>)
                     (emit (Ack (delivery0 ''alert'') False) consuming_world))
              (emit (Ack (delivery0 ''alert'') False) consuming_world))
           (\<lambda>_. Returns Continue)"
    by (rule at [THEN conjunct2, THEN conjunct2, THEN conjunct2, THEN conjunct1, THEN mp, OF a])
  have f5: "amqpSelect 1 codec0 (SelMessageQueue (Fires (delivery0 ''info''))) consuming_world =
         andThen
           (sending (chan_send (InfoChan (Receiver (service consuming_world))) info0)
              (\<lambda>c. upd_Receiver (\<lambda>r. r\<lparr>InfoChan := c\<rparr>)
                     (emit (Ack (delivery0 ''info'') False) consuming_world))
              (emit (Ack (delivery0 ''info'') False) consuming_world))
           (\<lambda>_. Returns Continue)"
    by (rule at [THEN conjunct2, THEN conjunct2, THEN conjunct2, THEN conjunct2, THEN conjunct1,
          THEN mp, OF i])
  from f1 f2 f3 f4 f5 mq room tr show ?thesis
    by (simp add: upd_Receiver_def)
qed

subsection \<open>Starting the service\<close>

lemma connectedTo_simps [simp]:
  "trace (connectedTo conn w) =
     trace w @ [Log DEBUG ''Connected to AMQP broker'', ConnNotifyClose conn]"
  "service (connectedTo conn w) = (service w)\<lparr>connection := Some conn, Connected := True\<rparr>"
  "starter (connectedTo conn w) = starter w"
  "listeners (connectedTo conn w) = listeners w"
  "notifyClosed (connectedTo conn w) = notifyClosed w"
  by (simp_all add: connectedTo_def Let_def)

lemma fillDriplineSenderInfo_frame [simp]:
  "trace (snd (fillDriplineSenderInfo env w)) = trace w"
  "starter (snd (fillDriplineSenderInfo env w)) = starter w"
  "BrokerAddress (service (snd (fillDriplineSenderInfo env w))) = BrokerAddress (service w)"
  "Connected (service (snd (fillDriplineSenderInfo env w))) = Connected (service w)"
  "DoneSignal (service (snd (fillDriplineSenderInfo env w))) = DoneSignal (service w)"
  "Receiver (service (snd (fillDriplineSenderInfo env w))) = Receiver (service w)"
  "Sender (service (snd (fillDriplineSenderInfo env w))) = Sender (service w)"
  "channel (service (snd (fillDriplineSenderInfo env w))) = channel (service w)"
  "connection (service (snd (fillDriplineSenderInfo env w))) = connection (service w)"
  "stopQueue (service (snd (fillDriplineSenderInfo env w))) = stopQueue (service w)"
  by (simp_all add: fillDriplineSenderInfo_def Let_def)

lemma fillDriplineSenderInfo_error:
  "fst (fillDriplineSenderInfo env w) = None \<longleftrightarrow>
     snd (executable env) = None \<and> snd (hostname env) = None \<and> snd (currentUser env) = None"
  by (auto simp: fillDriplineSenderInfo_def Let_def)

lemma fst_dialBroker [simp]: "fst (dialBroker env w0) = dialResult env"
  by (simp add: dialBroker_def dialResult_def Let_def split: sum.splits)

text \<open>
  Claim C6 says that after two failed dials the synchronous start call returns an error
  to the caller. \<^verbatim>\<open>StartService\<close> has no error result and never returns
  \<^verbatim>\<open>nil\<close>: against a broker that refuses both dials the call returns, and what it
  returns is the service.
\<close>

theorem StartService_dial_failure_returns_handle:
  "returned (StartService ''amqp://nowhere'' ''q1'' unreachable_env codec0 []) \<and>
   \<not> start_returns_error (StartService ''amqp://nowhere'' ''q1'' unreachable_env codec0 [])"
  by (simp add: StartService_def AmqpService_StartService_def runAmqpService_def dialBroker_def
      unreachable_env_def reachable_env_def fillDriplineSenderInfo_def ServiceDefaults_def
      make_chan_def chan_recv_def signalDone_def Let_def)

text \<open>The dial with its single retry, whatever the second dial gives.\<close>

lemma dialBroker_retries_once:
  assumes "firstDial env = Inl e1"
  shows "fst (dialBroker env w) = secondDial env \<and>
      trace (snd (dialBroker env w)) =
        trace w @
        (if snd (executable (sysInfo env)) = None \<and> snd (hostname (sysInfo env)) = None \<and>
            snd (currentUser (sysInfo env)) = None
         then [] else [Log WARNING ''Unable to properly fill dripline sender info'']) @
        [Dial (BrokerAddress (service w)),
         Log WARNING ''Unable to connect on first attempt.  Waiting 10 seconds to try again.'',
         Sleep 10,
         Log DEBUG ''Second attempt to connect'',
         Dial (BrokerAddress (service w))]"
proof (cases "fst (fillDriplineSenderInfo (sysInfo env) w)")
  case None
  with fillDriplineSenderInfo_error [of "sysInfo env" w] assms show ?thesis
    by (simp add: dialBroker_def Let_def)
next
  case (Some a)
  with fillDriplineSenderInfo_error [of "sysInfo env" w] assms show ?thesis
    by (simp add: dialBroker_def Let_def)
qed

text \<open>When the first dial succeeds there is no wait and no second dial.\<close>

lemma dialBroker_first_dial:
  assumes "firstDial env = Inr c"
  shows "fst (dialBroker env w) = Inr c \<and>
      trace (snd (dialBroker env w)) =
        trace w @
        (if snd (executable (sysInfo env)) = None \<and> snd (hostname (sysInfo env)) = None \<and>
            snd (currentUser (sysInfo env)) = None
         then [] else [Log WARNING ''Unable to properly fill dripline sender info'']) @
        [Dial (BrokerAddress (service w))]"
proof (cases "fst (fillDriplineSenderInfo (sysInfo env) w)")
  case None
  with fillDriplineSenderInfo_error [of "sysInfo env" w] assms show ?thesis
    by (simp add: dialBroker_def Let_def)
next
  case (Some a)
  with fillDriplineSenderInfo_error [of "sysInfo env" w] assms show ?thesis
    by (simp add: dialBroker_def Let_def)
qed

lemma StartService_two_failures:
  assumes "firstDial env = Inl e1" and "secondDial env = Inl e2"
  shows "result (StartService addr q env cd sched) =
           Some (Some (service (final (StartService addr q env cd sched)))) \<and>
         \<not> Connected (service (final (StartService addr q env cd sched))) \<and>
         connection (service (final (StartService addr q env cd sched))) = None \<and>
         trace (final (StartService addr q env cd sched)) =
           (if snd (executable (sysInfo env)) = None \<and> snd (hostname (sysInfo env)) = None \<and>
               snd (currentUser (sysInfo env)) = None
            then [] else [Log WARNING ''Unable to properly fill dripline sender info'']) @
           [Dial addr,
            Log WARNING ''Unable to connect on first attempt.  Waiting 10 seconds to try again.'',
            Sleep 10,
            Log DEBUG ''Second attempt to connect'',
            Dial addr,
            Log CRITICAL ''Unable to connect to the AMQP broker'',
            Signal True,
            Log CRITICAL ''Service did not start'']"
proof -
  let ?w0 = "\<lparr>service = ServiceDefaults\<lparr>BrokerAddress := addr,
                 Receiver := (Receiver (ServiceDefaults\<lparr>BrokerAddress := addr\<rparr>))\<lparr>QueueName := q\<rparr>\<rparr>,
               trace = [], starter = AwaitingDone, listeners = [], notifyClosed = False\<rparr>"
  let ?f = "fillDriplineSenderInfo (sysInfo env) ?w0"
  have er: "fst ?f = None \<longleftrightarrow>
     snd (executable (sysInfo env)) = None \<and> snd (hostname (sysInfo env)) = None \<and>
     snd (currentUser (sysInfo env)) = None"
    by (rule fillDriplineSenderInfo_error)
  show ?thesis
  proof (cases "fst ?f")
    case None
    with er assms show ?thesis
      by (simp add: StartService_def AmqpService_StartService_def runAmqpService_def
          dialBroker_def dialResult_def ServiceDefaults_def make_chan_def chan_recv_def
          signalDone_def Let_def)
  next
    case (Some a)
    with er assms show ?thesis
      by (simp add: StartService_def AmqpService_StartService_def runAmqpService_def
          dialBroker_def dialResult_def ServiceDefaults_def make_chan_def chan_recv_def
          signalDone_def Let_def)
  qed
qed

text \<open>
  Claim C6 as amended. When the first dial fails the service waits ten seconds and dials
  once more, and what that second dial gives is final (first part). When it fails too,
  the goroutine sends \<open>True\<close> on \<^verbatim>\<open>DoneSignal\<close> once and dials no more, whatever
  the schedule; the start call then logs "Service did not start" and returns the
  service, which is not connected and has no connection: the failure shows in
  \<open>Connected\<close> and in the log, not in the returned value. The trace of the whole call
  is the one below (after a warning if the sender information could not be filled).
\<close>

theorem StartService_after_two_failed_dials:
  "(firstDial env = Inl e1 \<longrightarrow>
      fst (dialBroker env w) = secondDial env \<and>
      trace (snd (dialBroker env w)) =
        trace w @
        (if snd (executable (sysInfo env)) = None \<and> snd (hostname (sysInfo env)) = None \<and>
            snd (currentUser (sysInfo env)) = None
         then [] else [Log WARNING ''Unable to properly fill dripline sender info'']) @
        [Dial (BrokerAddress (service w)),
         Log WARNING ''Unable to connect on first attempt.  Waiting 10 seconds to try again.'',
         Sleep 10,
         Log DEBUG ''Second attempt to connect'',
         Dial (BrokerAddress (service w))]) \<and>
   (firstDial env = Inl e1 \<and> secondDial env = Inl e2 \<longrightarrow>
      result (StartService addr q env cd sched) =
        Some (Some (service (final (StartService addr q env cd sched)))) \<and>
      \<not> Connected (service (final (StartService addr q env cd sched))) \<and>
      connection (service (final (StartService addr q env cd sched))) = None \<and>
      trace (final (StartService addr q env cd sched)) =
        (if snd (executable (sysInfo env)) = None \<and> snd (hostname (sysInfo env)) = None \<and>
            snd (currentUser (sysInfo env)) = None
         then [] else [Log WARNING ''Unable to properly fill dripline sender info'']) @
        [Dial addr,
         Log WARNING ''Unable to connect on first attempt.  Waiting 10 seconds to try again.'',
         Sleep 10,
         Log DEBUG ''Second attempt to connect'',
         Dial addr,
         Log CRITICAL ''Unable to connect to the AMQP broker'',
         Signal True,
         Log CRITICAL ''Service did not start''])"
  using dialBroker_retries_once [of env e1 w] StartService_two_failures [of env e1 e2 addr q cd sched]
  by blast

theorem StartService_after_two_failed_dials_witness:
  "firstDial unreachable_env = Inl ''connection refused'' \<and>
   secondDial unreachable_env = Inl ''connection refused'' \<and>
   fst (dialBroker unreachable_env fresh_world) = Inl ''connection refused'' \<and>
   \<not> Connected (service (final (StartService ''amqp://nowhere'' ''q1'' unreachable_env codec0 []))) \<and>
   trace (final (StartService ''amqp://nowhere'' ''q1'' unreachable_env codec0 [])) =
     [Dial ''amqp://nowhere'',
      Log WARNING ''Unable to connect on first attempt.  Waiting 10 seconds to try again.'',
      Sleep 10,
      Log DEBUG ''Second attempt to connect'',
      Dial ''amqp://nowhere'',
      Log CRITICAL ''Unable to connect to the AMQP broker'',
      Signal True,
      Log CRITICAL ''Service did not start'']"
proof -
  have d: "firstDial unreachable_env = Inl ''connection refused''"
    "secondDial unreachable_env = Inl ''connection refused''"
    by (simp_all add: unreachable_env_def reachable_env_def)
  have s: "snd (executable (sysInfo unreachable_env)) = None"
    "snd (hostname (sysInfo unreachable_env)) = None"
    "snd (currentUser (sysInfo unreachable_env)) = None"
    by (simp_all add: unreachable_env_def reachable_env_def)
  from StartService_after_two_failed_dials
         [where env = unreachable_env and ?e1.0 = "''connection refused''"
            and ?e2.0 = "''connection refused''" and w = fresh_world
            and addr = "''amqp://nowhere''" and q = "''q1''" and cd = codec0 and sched = "[]"]
       d s
  show ?thesis by simp
qed

subsection \<open>Leaving the loop\<close>

lemma signalDone_Returns:
  assumes "signalDone v w = Returns u w'"
  shows "trace w' = trace w @ [Signal v]" and "channel (service w') = channel (service w)"
    and "Receiver (service w') = Receiver (service w)"
    and "listeners w' = listeners w" and "notifyClosed w' = notifyClosed w"
  using assms by (auto simp: signalDone_def chan_send_def Let_def split: if_splits)

lemma length_removeAll_count: "length (removeAll x xs) + count_list xs x = length xs"
  by (induction xs) simp_all

text \<open>
  Closing one AMQP channel and then the connection closes the notification channels
  once for each registration there is.
\<close>

lemma closing_channel_then_connection:
  "(closingPanics (count_list xs x) b \<or>
    closingPanics (length (removeAll x xs)) (b \<or> 1 \<le> count_list xs x)) =
   closingPanics (length xs) b"
  using length_removeAll_count [of x xs] by (auto simp: closingPanics_def)

lemma deferredCalls_runs:
  assumes "channel (service w) = Some ch"
  shows "trace (fst (deferredCalls qd (Some dcc) conn w)) =
           trace w @ [QueueDelete ch (QueueName (Receiver (service w))) False False False] @
             (case qd of None \<Rightarrow> [] | Some e \<Rightarrow> [Log ERROR ''Error while deleting queue'']) @
             [ChannelClose dcc, ConnectionClose conn]"
    and "snd (deferredCalls qd (Some dcc) conn w) =
           closingPanics (length (listeners w)) (notifyClosed w)"
  using assms closing_channel_then_connection [of "listeners w" dcc "notifyClosed w"]
  by (simp_all add: deferredCalls_def Let_def split: option.splits)

lemma leaveLoop_Returns:
  assumes "leaveLoop qd dc conn w = Returns u w'"
  shows "\<exists>ch dcc. channel (service w) = Some ch \<and> dc = Some dcc \<and>
           trace w' = trace w @ [Signal True,
                        QueueDelete ch (QueueName (Receiver (service w))) False False False] @
             (case qd of None \<Rightarrow> [] | Some e \<Rightarrow> [Log ERROR ''Error while deleting queue'']) @
             [ChannelClose dcc, ConnectionClose conn]"
proof (cases "signalDone True w")
  case (Returns u1 w1)
  note sd = signalDone_Returns [OF Returns]
  from assms Returns have np: "\<not> snd (deferredCalls qd dc conn w1)"
    and w': "w' = fst (deferredCalls qd dc conn w1)"
    by (auto simp: leaveLoop_def split: if_splits)
  from np obtain ch dcc where c: "channel (service w1) = Some ch" and d: "dc = Some dcc"
    by (auto simp: deferredCalls_def Let_def split: option.splits)
  from deferredCalls_runs(1) [of w1 ch qd dcc conn] c d w' sd show ?thesis by simp
next
  case (Parks w1)
  with assms show ?thesis by (simp add: leaveLoop_def)
next
  case (Panics w1)
  with assms show ?thesis by (simp add: leaveLoop_def)
qed

lemma leaveLoop_runs:
  assumes "returned (signalDone True w)" and "channel (service w) = Some ch"
  shows "trace (final (leaveLoop qd (Some dcc) conn w)) =
           trace w @ [Signal True,
                      QueueDelete ch (QueueName (Receiver (service w))) False False False] @
             (case qd of None \<Rightarrow> [] | Some e \<Rightarrow> [Log ERROR ''Error while deleting queue'']) @
             [ChannelClose dcc, ConnectionClose conn]"
    and "returned (leaveLoop qd (Some dcc) conn w) =
           (\<not> closingPanics (length (listeners w)) (notifyClosed w))"
proof -
  from assms(1) obtain u1 w1 where r: "signalDone True w = Returns u1 w1"
    by (cases "signalDone True w") simp_all
  note sd = signalDone_Returns [OF r]
  from sd assms(2) have c: "channel (service w1) = Some ch" by simp
  note dc = deferredCalls_runs [OF c, of qd dcc conn]
  from r dc sd
  show "trace (final (leaveLoop qd (Some dcc) conn w)) =
           trace w @ [Signal True,
                      QueueDelete ch (QueueName (Receiver (service w))) False False False] @
             (case qd of None \<Rightarrow> [] | Some e \<Rightarrow> [Log ERROR ''Error while deleting queue'']) @
             [ChannelClose dcc, ConnectionClose conn]"
    by (simp add: leaveLoop_def)
  from r dc sd
  show "returned (leaveLoop qd (Some dcc) conn w) =
           (\<not> closingPanics (length (listeners w)) (notifyClosed w))"
    by (simp add: leaveLoop_def)
qed

text \<open>
  Once the dial, the first set-up and the start signal have gone through and the loop is
  left, the run is \<open>leaveLoop\<close>, with the channel of the first set-up as the channel of
  the deferred \<^verbatim>\<open>Close\<close>.
\<close>

lemma runAmqpService_leaves:
  assumes "dialResult env = Inr conn"
    and "channelSetupFunc conn (firstSetup env) (connectedTo conn (snd (dialBroker env w0))) =
           Returns () w5"
    and "signalDone False (logging NOTICE ''AMQP service started successfully'' w5) =
           Returns () w6"
    and "amqpLoop conn cd sched w6 = Returns () w7"
  shows "runAmqpService env cd sched w0 =
           leaveLoop (queueDeleteErr env) (channel (service w5)) conn w7"
  using assms by (simp add: runAmqpService_def Let_def)

text \<open>A run that connected and returned has left the loop and gone through \<open>leaveLoop\<close>.\<close>

lemma runAmqpService_Returns:
  assumes "dialResult env = Inr conn" and "runAmqpService env cd sched w0 = Returns () w'"
  shows "\<exists>(w5::world) w6 w7.
           channelSetupFunc conn (firstSetup env) (connectedTo conn (snd (dialBroker env w0))) =
             Returns () w5 \<and>
           signalDone False (logging NOTICE ''AMQP service started successfully'' w5) =
             Returns () w6 \<and>
           amqpLoop conn cd sched w6 = Returns () w7 \<and>
           leaveLoop (queueDeleteErr env) (channel (service w5)) conn w7 = Returns () w'"
proof -
  let ?w4 = "connectedTo conn (snd (dialBroker env w0))"
  from assms obtain u w5 where s5: "channelSetupFunc conn (firstSetup env) ?w4 = Returns u w5"
    by (cases "channelSetupFunc conn (firstSetup env) ?w4")
       (simp_all add: runAmqpService_def Let_def)
  let ?l = "andThen (signalDone False (logging NOTICE ''AMQP service started successfully'' w5))
              (\<lambda>_ w6. amqpLoop conn cd sched w6)"
  from assms s5 obtain u7 w7 where s7: "?l = Returns u7 w7"
    by (cases ?l) (simp_all add: runAmqpService_def Let_def)
  from assms s5 s7
  have ll: "leaveLoop (queueDeleteErr env) (channel (service w5)) conn w7 = Returns () w'"
    by (simp add: runAmqpService_def Let_def)
  from s7 obtain w6 where
    "signalDone False (logging NOTICE ''AMQP service started successfully'' w5) = Returns () w6"
    "amqpLoop conn cd sched w6 = Returns () w7"
    by (auto simp: andThen_Returns_iff)
  moreover from s5 have "channelSetupFunc conn (firstSetup env) ?w4 = Returns () w5"
    by simp
  ultimately show ?thesis using ll by blast
qed

text \<open>
  A whole run: \<^verbatim>\<open>Stop\<close> was called, the service starts against a broker that grants
  everything, and the loop takes the \<open>True\<close> from the control channel.
\<close>

lemma stop_run_trace:
  "returned (runAmqpService reachable_env codec0 [SelStopQueue] stop_requested_world) \<and>
   trace (final (runAmqpService reachable_env codec0 [SelStopQueue] stop_requested_world)) =
     [Log DEBUG ''Submitting stop request'',
      Dial ''localhost'',
      Log DEBUG ''Connected to AMQP broker'',
      ConnNotifyClose 1,
      ConnChannel 1,
      Log DEBUG ''Channel with AMQP broker established'',
      QueueDeclare 1 ''my_queue'' False True True False,
      Log DEBUG ''Queue declared'',
      Log INFO ''AMQP service ready to receive messages'',
      ExchangeDeclare 1 ''requests'' ''topic'' False False False False,
      Log DEBUG ''Requests exchange is ready'',
      ExchangeDeclare 1 ''alerts'' ''topic'' False False False False,
      Log DEBUG ''Alerts exchange is ready'',
      ExchangeDeclare 1 ''requests'' ''topic'' False False False False,
      Log DEBUG ''Infos exchange is ready'',
      NotifyCancel 1,
      NotifyClose 1,
      Log INFO ''AMQP service ready to send messages'',
      Log NOTICE ''AMQP service started successfully'',
      Signal False,
      Log INFO ''AMQP service stopping on interrupt.'',
      Signal True,
      QueueDelete 1 ''my_queue'' False False False,
      ChannelClose 1,
      ConnectionClose 1]"
  by (simp add: runAmqpService_def dialBroker_def stop_requested_world_def starting_world_def
      fresh_world_def Stop_def reachable_env_def granted_setup_def fillDriplineSenderInfo_def
      ServiceDefaults_def make_chan_def chan_send_def chan_recv_def signalDone_def
      channelSetupFunc_def beginConsuming_def declareExchange_def leaveLoop_def
      deferredCalls_def closingPanics_def Let_def)

text \<open>
  Claim C3 says that \<^verbatim>\<open>DoneSignal <- true\<close> is sent only after the teardown (queue
  deleted, channel closed, connection closed). In the run above the loop is left on the
  stop request and the signal is sent before the three calls: nothing is sent on
  \<^verbatim>\<open>DoneSignal\<close> after the connection is closed.
\<close>

theorem stop_signal_precedes_teardown:
  "returned (runAmqpService reachable_env codec0 [SelStopQueue] stop_requested_world) \<and>
   \<not> signalled_after_teardown 1
       (trace (final (runAmqpService reachable_env codec0 [SelStopQueue] stop_requested_world)))"
  using stop_run_trace by (simp add: signalled_after_teardown_def)

text \<open>
  Claim C3 as amended: when the loop is left, for whatever reason, the goroutine first
  sends \<open>True\<close> on \<^verbatim>\<open>DoneSignal\<close> and then, the send accepted, makes the three
  teardown calls in this order: it deletes the receive queue on the channel the service
  holds at that moment, it closes the channel that the first set-up opened, and it
  closes the connection. These are the same channel unless a channel cancel led to a
  re-set-up that opened another; then the queue is deleted on the new channel and the
  old one is closed. The goroutine returns after the three calls if and only if at most
  one AMQP channel holds the notification channels of the router, not closed yet.

  The first part is about the code after the loop, in any world \<open>w\<close> in which the loop
  may be left; \<open>dcc\<close> is the channel of the deferred \<^verbatim>\<open>Close\<close>. The second part says
  that a run whose first set-up ended in \<open>w5\<close> and whose loop is left in \<open>w7\<close> is that
  code, with the channel of \<open>w5\<close> for \<open>dcc\<close>. The third part says that every run that
  connected and returned went this way, and what its trace ends with.
\<close>

theorem stop_signal_then_teardown:
  "(returned (signalDone True w) \<and> channel (service w) = Some ch \<longrightarrow>
      trace (final (leaveLoop qd (Some dcc) conn w)) =
        trace w @ [Signal True,
                   QueueDelete ch (QueueName (Receiver (service w))) False False False] @
          (case qd of None \<Rightarrow> [] | Some e \<Rightarrow> [Log ERROR ''Error while deleting queue'']) @
          [ChannelClose dcc, ConnectionClose conn] \<and>
      returned (leaveLoop qd (Some dcc) conn w) =
        (\<not> closingPanics (length (listeners w)) (notifyClosed w))) \<and>
   (dialResult env = Inr cn \<and>
    channelSetupFunc cn (firstSetup env) (connectedTo cn (snd (dialBroker env w0))) =
      Returns () w5 \<and>
    signalDone False (logging NOTICE ''AMQP service started successfully'' w5) = Returns () w6 \<and>
    amqpLoop cn cd sched w6 = Returns () w7 \<longrightarrow>
      runAmqpService env cd sched w0 =
        leaveLoop (queueDeleteErr env) (channel (service w5)) cn w7) \<and>
   (dialResult env = Inr cn \<and> runAmqpService env cd sched w0 = Returns () w' \<longrightarrow>
      (\<exists>v5 v6 v7 ch' dcc'.
          channelSetupFunc cn (firstSetup env) (connectedTo cn (snd (dialBroker env w0))) =
            Returns () v5 \<and>
          signalDone False (logging NOTICE ''AMQP service started successfully'' v5) =
            Returns () v6 \<and>
          amqpLoop cn cd sched v6 = Returns () v7 \<and>
          channel (service v5) = Some dcc' \<and>
          channel (service v7) = Some ch' \<and>
          \<not> closingPanics (length (listeners v7)) (notifyClosed v7) \<and>
          trace w' =
            trace v7 @ [Signal True,
                        QueueDelete ch' (QueueName (Receiver (service v7))) False False False] @
              (case queueDeleteErr env of
                 None \<Rightarrow> [] | Some e \<Rightarrow> [Log ERROR ''Error while deleting queue'']) @
              [ChannelClose dcc', ConnectionClose cn]))"
proof (intro conjI)
  show "returned (signalDone True w) \<and> channel (service w) = Some ch \<longrightarrow>
      trace (final (leaveLoop qd (Some dcc) conn w)) =
        trace w @ [Signal True,
                   QueueDelete ch (QueueName (Receiver (service w))) False False False] @
          (case qd of None \<Rightarrow> [] | Some e \<Rightarrow> [Log ERROR ''Error while deleting queue'']) @
          [ChannelClose dcc, ConnectionClose conn] \<and>
      returned (leaveLoop qd (Some dcc) conn w) =
        (\<not> closingPanics (length (listeners w)) (notifyClosed w))"
    using leaveLoop_runs [of w ch qd dcc conn] by blast
next
  show "dialResult env = Inr cn \<and>
    channelSetupFunc cn (firstSetup env) (connectedTo cn (snd (dialBroker env w0))) =
      Returns () w5 \<and>
    signalDone False (logging NOTICE ''AMQP service started successfully'' w5) = Returns () w6 \<and>
    amqpLoop cn cd sched w6 = Returns () w7 \<longrightarrow>
      runAmqpService env cd sched w0 =
        leaveLoop (queueDeleteErr env) (channel (service w5)) cn w7"
    using runAmqpService_leaves [of env cn w0 w5 w6 cd sched w7] by blast
next
  show "dialResult env = Inr cn \<and> runAmqpService env cd sched w0 = Returns () w' \<longrightarrow>
      (\<exists>v5 v6 v7 ch' dcc'.
          channelSetupFunc cn (firstSetup env) (connectedTo cn (snd (dialBroker env w0))) =
            Returns () v5 \<and>
          signalDone False (logging NOTICE ''AMQP service started successfully'' v5) =
            Returns () v6 \<and>
          amqpLoop cn cd sched v6 = Returns () v7 \<and>
          channel (service v5) = Some dcc' \<and>
          channel (service v7) = Some ch' \<and>
          \<not> closingPanics (length (listeners v7)) (notifyClosed v7) \<and>
          trace w' =
            trace v7 @ [Signal True,
                        QueueDelete ch' (QueueName (Receiver (service v7))) False False False] @
              (case queueDeleteErr env of
                 None \<Rightarrow> [] | Some e \<Rightarrow> [Log ERROR ''Error while deleting queue'']) @
              [ChannelClose dcc', ConnectionClose cn])"
  proof
    assume a: "dialResult env = Inr cn \<and> runAmqpService env cd sched w0 = Returns () w'"
    then obtain v5 :: world and v6 v7 where
      first: "channelSetupFunc cn (firstSetup env) (connectedTo cn (snd (dialBroker env w0))) =
                Returns () v5" and
      started: "signalDone False (logging NOTICE ''AMQP service started successfully'' v5) =
                Returns () v6" and
      loop: "amqpLoop cn cd sched v6 = Returns () v7" and
      leave: "leaveLoop (queueDeleteErr env) (channel (service v5)) cn v7 = Returns () w'"
      using runAmqpService_Returns [of env cn cd sched w0 w'] by blast
    from leaveLoop_Returns [OF leave] obtain ch' dcc' where
      c: "channel (service v7) = Some ch'" and d: "channel (service v5) = Some dcc'" and
      t: "trace w' =
            trace v7 @ [Signal True,
                        QueueDelete ch' (QueueName (Receiver (service v7))) False False False] @
              (case queueDeleteErr env of
                 None \<Rightarrow> [] | Some e \<Rightarrow> [Log ERROR ''Error while deleting queue'']) @
              [ChannelClose dcc', ConnectionClose cn]"
      by blast
    from leave have sd: "returned (signalDone True v7)"
      by (cases "signalDone True v7") (simp_all add: leaveLoop_def)
    from leaveLoop_runs(2) [OF sd c, of "queueDeleteErr env" dcc' cn] leave d
    have p: "\<not> closingPanics (length (listeners v7)) (notifyClosed v7)"
      by simp
    from first started loop c d p t
    show "\<exists>v5 v6 v7 ch' dcc'.
          channelSetupFunc cn (firstSetup env) (connectedTo cn (snd (dialBroker env w0))) =
            Returns () v5 \<and>
          signalDone False (logging NOTICE ''AMQP service started successfully'' v5) =
            Returns () v6 \<and>
          amqpLoop cn cd sched v6 = Returns () v7 \<and>
          channel (service v5) = Some dcc' \<and>
          channel (service v7) = Some ch' \<and>
          \<not> closingPanics (length (listeners v7)) (notifyClosed v7) \<and>
          trace w' =
            trace v7 @ [Signal True,
                        QueueDelete ch' (QueueName (Receiver (service v7))) False False False] @
              (case queueDeleteErr env of
                 None \<Rightarrow> [] | Some e \<Rightarrow> [Log ERROR ''Error while deleting queue'']) @
              [ChannelClose dcc', ConnectionClose cn]"
      by blast
  qed
qed

theorem stop_signal_then_teardown_witness:
  "returned (leaveLoop None (Some 1) 1 running_world) \<and>
   trace (final (leaveLoop None (Some 1) 1 running_world)) =
     [Signal True, QueueDelete 1 ''my_queue'' False False False, ChannelClose 1,
      ConnectionClose 1] \<and>
   runAmqpService reachable_env codec0 [SelStopQueue] stop_requested_world =
     leaveLoop None (Some 1) 1
       (final (amqpLoop 1 codec0 [SelStopQueue]
          (final (signalDone False
             (logging NOTICE ''AMQP service started successfully''
                (final (channelSetupFunc 1 granted_setup
                   (connectedTo 1 (snd (dialBroker reachable_env stop_requested_world)))))))))) \<and>
   (\<exists>(v7::world) ch' dcc'.
       channel (service v7) = Some ch' \<and>
       \<not> closingPanics (length (listeners v7)) (notifyClosed v7) \<and>
       trace (final (runAmqpService reachable_env codec0 [SelStopQueue] stop_requested_world)) =
         trace v7 @ [Signal True,
                     QueueDelete ch' (QueueName (Receiver (service v7))) False False False,
                     ChannelClose dcc', ConnectionClose 1])"
proof -
  let ?w4 = "connectedTo 1 (snd (dialBroker reachable_env stop_requested_world))"
  let ?w5 = "final (channelSetupFunc 1 granted_setup ?w4)"
  let ?w6 = "final (signalDone False (logging NOTICE ''AMQP service started successfully'' ?w5))"
  let ?w7 = "final (amqpLoop 1 codec0 [SelStopQueue] ?w6)"
  have a: "returned (signalDone True running_world)"
    by (simp add: signalDone_def running_world_def ServiceDefaults_def make_chan_def chan_send_def)
  have b: "channel (service running_world) = Some 1"
    and q: "QueueName (Receiver (service running_world)) = ''my_queue''"
    and t: "trace running_world = []"
    and l: "\<not> closingPanics (length (listeners running_world)) (notifyClosed running_world)"
    by (simp_all add: running_world_def ServiceDefaults_def closingPanics_def)
  have c: "dialResult reachable_env = Inr 1" and n: "queueDeleteErr reachable_env = None"
    and f: "firstSetup reachable_env = granted_setup"
    by (simp_all add: dialResult_def reachable_env_def)
  have r5: "returned (channelSetupFunc 1 granted_setup ?w4)"
    and c5: "channel (service ?w5) = Some 1"
    by (simp_all add: dialBroker_def stop_requested_world_def starting_world_def
        fresh_world_def Stop_def reachable_env_def granted_setup_def fillDriplineSenderInfo_def
        ServiceDefaults_def make_chan_def chan_send_def channelSetupFunc_def
        beginConsuming_def declareExchange_def Let_def)
  have r6: "returned (signalDone False
              (logging NOTICE ''AMQP service started successfully'' ?w5))"
    by (simp add: dialBroker_def stop_requested_world_def starting_world_def
        fresh_world_def Stop_def reachable_env_def granted_setup_def fillDriplineSenderInfo_def
        ServiceDefaults_def make_chan_def chan_send_def channelSetupFunc_def
        beginConsuming_def declareExchange_def signalDone_def Let_def)
  have r7: "returned (amqpLoop 1 codec0 [SelStopQueue] ?w6)"
    by (simp add: dialBroker_def stop_requested_world_def starting_world_def
        fresh_world_def Stop_def reachable_env_def granted_setup_def fillDriplineSenderInfo_def
        ServiceDefaults_def make_chan_def chan_send_def chan_recv_def channelSetupFunc_def
        beginConsuming_def declareExchange_def signalDone_def Let_def)
  have d: "runAmqpService reachable_env codec0 [SelStopQueue] stop_requested_world =
      Returns () (final (runAmqpService reachable_env codec0 [SelStopQueue] stop_requested_world))"
    using stop_run_trace by (intro returned_unit) blast
  note inst = stop_signal_then_teardown
         [where w = running_world and ch = 1 and qd = None and dcc = 1 and conn = 1
            and env = reachable_env and cn = 1 and cd = codec0 and sched = "[SelStopQueue]"
            and ?w0.0 = stop_requested_world and ?w5.0 = ?w5 and ?w6.0 = ?w6 and ?w7.0 = ?w7
            and w' = "final (runAmqpService reachable_env codec0 [SelStopQueue]
                               stop_requested_world)"]
  from inst [THEN conjunct1, THEN mp, OF conjI [OF a b]] q t l
  have first: "returned (leaveLoop None (Some 1) 1 running_world) \<and>
      trace (final (leaveLoop None (Some 1) 1 running_world)) =
        [Signal True, QueueDelete 1 ''my_queue'' False False False, ChannelClose 1,
         ConnectionClose 1]"
    by simp
  from inst [THEN conjunct2, THEN conjunct1, THEN mp,
            OF conjI [OF c conjI [OF _ conjI [OF returned_unit [OF r6] returned_unit [OF r7]]]]]
    returned_unit [OF r5] f n c5
  have second: "runAmqpService reachable_env codec0 [SelStopQueue] stop_requested_world =
      leaveLoop None (Some 1) 1 ?w7"
    by simp
  from inst [THEN conjunct2, THEN conjunct2, THEN mp, OF conjI [OF c d]]
  have third: "\<exists>(v7::world) ch' dcc'.
       channel (service v7) = Some ch' \<and>
       \<not> closingPanics (length (listeners v7)) (notifyClosed v7) \<and>
       trace (final (runAmqpService reachable_env codec0 [SelStopQueue] stop_requested_world)) =
         trace v7 @ [Signal True,
                     QueueDelete ch' (QueueName (Receiver (service v7))) False False False,
                     ChannelClose dcc', ConnectionClose 1]"
    unfolding n by (simp only: option.case append.simps) blast
  from first second third show ?thesis by blast
qed

text \<open>
  After a channel cancel and a re-set-up that the broker grants on a second channel, both
  AMQP channels hold the notification channels. The goroutine deletes the queue on the
  second channel and closes the first one, which closes the notification channels; the
  connection then shuts the second channel down, the notification channels are closed
  once more, and \<^verbatim>\<open>connection.Close()\<close> panics.
\<close>

lemma cancel_run_trace:
  "panicked (runAmqpService reachable_env codec0
      [SelChannelCancel (Fires ''ctag-1'') regranted_setup] starting_world) \<and>
   trace (final (runAmqpService reachable_env codec0
      [SelChannelCancel (Fires ''ctag-1'') regranted_setup] starting_world)) =
     [Dial ''localhost'',
      Log DEBUG ''Connected to AMQP broker'',
      ConnNotifyClose 1,
      ConnChannel 1,
      Log DEBUG ''Channel with AMQP broker established'',
      QueueDeclare 1 ''my_queue'' False True True False,
      Log DEBUG ''Queue declared'',
      Log INFO ''AMQP service ready to receive messages'',
      ExchangeDeclare 1 ''requests'' ''topic'' False False False False,
      Log DEBUG ''Requests exchange is ready'',
      ExchangeDeclare 1 ''alerts'' ''topic'' False False False False,
      Log DEBUG ''Alerts exchange is ready'',
      ExchangeDeclare 1 ''requests'' ''topic'' False False False False,
      Log DEBUG ''Infos exchange is ready'',
      NotifyCancel 1,
      NotifyClose 1,
      Log INFO ''AMQP service ready to send messages'',
      Log NOTICE ''AMQP service started successfully'',
      Signal False,
      Log WARNING ''AMQP channel was canceled'',
      Log INFO ''Attempting to re-open the channel'',
      ConnChannel 1,
      Log DEBUG ''Channel with AMQP broker established'',
      QueueDeclare 2 ''my_queue'' False True True False,
      Log DEBUG ''Queue declared'',
      Log INFO ''AMQP service ready to receive messages'',
      ExchangeDeclare 2 ''requests'' ''topic'' False False False False,
      Log DEBUG ''Requests exchange is ready'',
      ExchangeDeclare 2 ''alerts'' ''topic'' False False False False,
      Log DEBUG ''Alerts exchange is ready'',
      ExchangeDeclare 2 ''requests'' ''topic'' False False False False,
      Log DEBUG ''Infos exchange is ready'',
      NotifyCancel 2,
      NotifyClose 2,
      Log INFO ''AMQP service ready to send messages'',
      Signal True,
      QueueDelete 2 ''my_queue'' False False False,
      ChannelClose 1,
      ConnectionClose 1]"
  by (simp add: runAmqpService_def dialBroker_def starting_world_def fresh_world_def
      reachable_env_def regranted_setup_def granted_setup_def fillDriplineSenderInfo_def
      ServiceDefaults_def make_chan_def chan_send_def chan_recv_def signalDone_def
      channelSetupFunc_def beginConsuming_def declareExchange_def leaveLoop_def
      deferredCalls_def closingPanics_def Let_def)

subsection \<open>The liveness flag\<close>

text \<open>
  \<open>Connected\<close> is assigned once, in \<^verbatim>\<open>runAmqpService\<close> after a successful dial.
  No other step writes it: the value it has before a step is the value it has where the
  step ends, returns or not.
\<close>

lemma signalDone_Connected [simp]:
  "Connected (service (final (signalDone v w))) = Connected (service w)"
  by (simp add: signalDone_def chan_send_def Let_def)

lemma beginConsuming_Connected [simp]:
  "Connected (service (final (beginConsuming res w))) = Connected (service w)"
  by (simp add: beginConsuming_def chan_send_def Let_def upd_Receiver_def
      split: option.splits sum.splits)

lemma declareExchange_Connected [simp]:
  "Connected (service (final (declareExchange ch n err f r w))) = Connected (service w)"
  by (simp add: declareExchange_def Let_def split: option.splits)

lemma channelSetupFunc_Connected [simp]:
  "Connected (service (final (channelSetupFunc conn env w))) = Connected (service w)"
proof (cases "channelRes env")
  case (Inl e)
  then show ?thesis by (simp add: channelSetupFunc_def)
next
  case (Inr ch)
  let ?g = "\<lambda>s. Connected (service s)"
  let ?v = "Connected (service w)"
  show ?thesis
    unfolding channelSetupFunc_def Let_def Inr sum.case
  proof (intro keep_guarded [where g = ?g and v = ?v], goal_cases)
    case 1
    show ?case
    proof (cases "queueDeclareErr env")
      case None
      have "?g (final (andThen
               (beginConsuming (consumeRes env)
                 (logging DEBUG ''Queue declared''
                   (emit (QueueDeclare ch (QueueName (Receiver (service w))) False True True False)
                     (logging DEBUG ''Channel with AMQP broker established''
                       (emit (ConnChannel conn) w)
                      \<lparr>service := service w\<lparr>channel := Some ch\<rparr>\<rparr>))))
               (\<lambda>_ w5. Returns True
                    (logging INFO ''AMQP service ready to receive messages'' w5)))) = ?v"
        by (rule keep_andThen_upd [where g = ?g and v = ?v]) simp_all
      with None show ?thesis by simp
    next
      case (Some e)
      then show ?thesis by simp
    qed
  qed simp_all
qed

lemma send_Connected [simp]:
  "Connected (service (final (send m ch body env w))) = Connected (service w)"
  by (simp add: send_def Let_def split: option.splits)

lemma amqpSelect_Connected [simp]:
  "Connected (service (final (amqpSelect conn cd ev w))) = Connected (service w)"
proof (cases ev)
  case SelStopQueue
  then show ?thesis by (simp add: chan_recv_def Let_def split: list.splits)
next
  case (SelConnClose x)
  then show ?thesis by (simp split: feed.splits)
next
  case (SelChannelCancel x env)
  then show ?thesis by (simp split: feed.splits)
next
  case (SelChannelClose x)
  then show ?thesis by (simp split: feed.splits)
next
  case (SelRequestChan env)
  then show ?thesis
    by (simp add: chan_recv_def Let_def upd_Sender_def split: list.splits sum.splits)
next
  case (SelReplyChan env)
  then show ?thesis
    by (simp add: chan_recv_def Let_def upd_Sender_def split: list.splits sum.splits)
next
  case (SelAlertChan env)
  then show ?thesis
    by (simp add: chan_recv_def Let_def upd_Sender_def split: list.splits sum.splits)
next
  case (SelInfoChan env)
  then show ?thesis
    by (simp add: chan_recv_def Let_def upd_Sender_def split: list.splits sum.splits)
next
  case (SelMessageQueue x)
  then show ?thesis
    by (auto simp: DecodeAndHandle_def chan_send_def upd_Receiver_def
        split: option.splits feed.splits sum.splits decoded.splits)
qed

lemma amqpLoop_Connected [simp]:
  "Connected (service (final (amqpLoop conn cd sched w))) = Connected (service w)"
proof (induction sched arbitrary: w)
  case Nil
  then show ?case by simp
next
  case (Cons ev evs)
  show ?case
    unfolding amqpLoop.simps
    by (rule keep_andThen [where g = "\<lambda>s. Connected (service s)"])
       (simp_all add: Cons.IH split: ctl.splits)
qed

lemma deferredCalls_Connected [simp]:
  "Connected (service (fst (deferredCalls qd dc conn w))) = Connected (service w)"
  by (simp add: deferredCalls_def Let_def split: option.splits)

lemma leaveLoop_Connected [simp]:
  "Connected (service (final (leaveLoop qd dc conn w))) = Connected (service w)"
proof (cases "signalDone True w")
  case (Returns u w1)
  with signalDone_Connected [of True w] show ?thesis by (simp add: leaveLoop_def)
next
  case (Parks w1)
  with signalDone_Connected [of True w] show ?thesis by (simp add: leaveLoop_def)
next
  case (Panics w1)
  with signalDone_Connected [of True w] show ?thesis by (simp add: leaveLoop_def)
qed

text \<open>Once the dial has succeeded the flag is set, and it is still set where the run ends.\<close>

lemma runAmqpService_Connected:
  assumes "dialResult env = Inr conn"
  shows "Connected (service (final (runAmqpService env cd sched w0)))"
proof -
  let ?w4 = "connectedTo conn (snd (dialBroker env w0))"
  have c4: "Connected (service (final (channelSetupFunc conn (firstSetup env) ?w4)))"
    by simp
  show ?thesis
  proof (cases "channelSetupFunc conn (firstSetup env) ?w4")
    case (Returns u w5)
    with c4 have c5: "Connected (service w5)" by simp
    let ?l = "andThen (signalDone False (logging NOTICE ''AMQP service started successfully'' w5))
                (\<lambda>_ w6. amqpLoop conn cd sched w6)"
    have cl: "Connected (service (final ?l)) = Connected (service w5)"
      by (rule keep_andThen [where g = "\<lambda>s. Connected (service s)"]) simp_all
    show ?thesis
    proof (cases ?l)
      case (Returns u7 w7)
      with cl c5 have "Connected (service w7)" by simp
      with assms \<open>channelSetupFunc conn (firstSetup env) ?w4 = Returns u w5\<close> Returns
      show ?thesis by (simp add: runAmqpService_def Let_def)
    next
      case (Parks w7)
      with cl c5 have "Connected (service w7)" by simp
      with assms \<open>channelSetupFunc conn (firstSetup env) ?w4 = Returns u w5\<close> Parks
      show ?thesis by (simp add: runAmqpService_def Let_def)
    next
      case (Panics w7)
      with cl c5 have "Connected (service w7)" by simp
      with assms \<open>channelSetupFunc conn (firstSetup env) ?w4 = Returns u w5\<close> Panics
      show ?thesis by (simp add: runAmqpService_def Let_def)
    qed
  next
    case (Parks w5)
    with c4 assms show ?thesis by (simp add: runAmqpService_def Let_def)
  next
    case (Panics w5)
    with c4 assms show ?thesis by (simp add: runAmqpService_def Let_def)
  qed
qed

text \<open>
  Claim C5 says that when the broker closes the connection the flag \<open>Connected\<close>
  becomes false. It does not: in this run the service starts, the connection-close feed
  fires, the goroutine leaves the loop, tears down and returns, and \<open>Connected\<close> is
  still true.
\<close>

theorem connection_close_leaves_Connected_set:
  "returned (runAmqpService reachable_env codec0
      [SelConnClose (Fires ''connection reset by peer'')] starting_world) \<and>
   Connected (service (final (runAmqpService reachable_env codec0
      [SelConnClose (Fires ''connection reset by peer'')] starting_world)))"
  by (simp add: runAmqpService_def dialBroker_def starting_world_def fresh_world_def
      reachable_env_def granted_setup_def fillDriplineSenderInfo_def ServiceDefaults_def
      make_chan_def chan_send_def chan_recv_def signalDone_def channelSetupFunc_def
      beginConsuming_def declareExchange_def leaveLoop_def deferredCalls_def closingPanics_def
      Let_def)

text \<open>
  Claim C5 as amended: when the connection-close feed fires (or is closed) the loop is
  left at once, with the service as it was, so that nothing queued on the outgoing
  channels and no later delivery or event is serviced; and the flag \<open>Connected\<close> keeps
  its value through that iteration and through the teardown. In every run that
  connected, whatever the schedule, \<open>Connected\<close> is true where the run ends.
\<close>

theorem connection_close_leaves_loop_and_keeps_Connected:
  "amqpLoop conn cd (SelConnClose x # rest) w =
     Returns ()
       (case x of
          FeedClosed \<Rightarrow> logging ERROR ''Connection-close channel is closed'' w
        | Fires reason \<Rightarrow> logging WARNING ''AMQP connection was closed'' w) \<and>
   service (final (amqpLoop conn cd (SelConnClose x # rest) w)) = service w \<and>
   Connected (service (final (leaveLoop qd dc conn w))) = Connected (service w) \<and>
   (dialResult env = Inr cn \<longrightarrow>
      Connected (service (final (runAmqpService env cd sched w0))))"
  using runAmqpService_Connected [of env cn cd sched w0]
  by (cases x) simp_all

theorem connection_close_leaves_loop_and_keeps_Connected_witness:
  "dialResult reachable_env = Inr 1 \<and>
   Connected (service (final (runAmqpService reachable_env codec0
      [SelConnClose (Fires ''connection reset by peer''), SelRequestChan \<lparr>newUuid = ''u-1'',
         publishErr = None\<rparr>] starting_world))) \<and>
   amqpLoop 1 codec0
      [SelConnClose (Fires ''connection reset by peer''),
       SelRequestChan \<lparr>newUuid = ''u-1'', publishErr = None\<rparr>] running_world =
     Returns () (logging WARNING ''AMQP connection was closed'' running_world)"
proof -
  have d: "dialResult reachable_env = Inr 1"
    by (simp add: dialResult_def reachable_env_def)
  from connection_close_leaves_loop_and_keeps_Connected
         [where env = reachable_env and cn = 1 and cd = codec0 and conn = 1
            and x = "Fires ''connection reset by peer''"
            and rest = "[SelRequestChan \<lparr>newUuid = ''u-1'', publishErr = None\<rparr>]"
            and w = running_world
            and sched = "[SelConnClose (Fires ''connection reset by peer''),
                          SelRequestChan \<lparr>newUuid = ''u-1'', publishErr = None\<rparr>]"
            and ?w0.0 = starting_world]
       d
  show ?thesis by simp
qed

end
